theory Spec2Isabelle
  imports Main "HOL-Library.Word"
begin

section \<open>The keyboard reader over the HID driver layer\<close>

text \<open>
  A shallow embedding of \<^verbatim>\<open>HelperForKeyboardReaderIOKit.cpp\<close>. The object's members
  are the fields of the record \<open>Helper\<close>; the two things the code does to the outside
  world (calls into the IOKit driver layer and messages handed to the error-logger
  functor) are two lists in the same record, appended to in program order. What the
  driver answers is the record \<open>Driver\<close>, one field per IOKit entry point.

  Machine types (LP64): \<open>long\<close> is a 64-bit word read with \<open>sint\<close>,
  \<open>IOHIDElementCookie\<close> and \<open>io_object_t\<close> are 32-bit words, \<open>IOReturn\<close> and
  \<open>HRESULT\<close> are 32-bit words whose \<open>(int)\<close> cast is \<open>sint\<close>. Interface pointers
  are natural numbers, \<open>0\<close> being \<open>NULL\<close>.
\<close>

subsection \<open>Platform types and constants\<close>

type_synonym long = "64 word"
type_synonym IOHIDElementCookie = "32 word"
type_synonym io_object_t = "32 word"
type_synonym IOReturn = "32 word"
type_synonym HRESULT = "32 word"
type_synonym pointer = nat

definition kIOReturnSuccess :: IOReturn where
  "kIOReturnSuccess = 0"

definition kIOReturnError :: IOReturn where
  "kIOReturnError = 0xE00002BC"

definition kIOReturnUnderrun :: IOReturn where
  "kIOReturnUnderrun = 0xE00002E7"

definition S_OK :: HRESULT where
  "S_OK = 0"

definition kHIDPage_KeyboardOrKeypad :: long where
  "kHIDPage_KeyboardOrKeypad = 0x07"

definition kHIDUsage_KeyboardErrorRollOver :: nat where
  "kHIDUsage_KeyboardErrorRollOver = 0x01"

definition kHIDUsage_KeyboardPOSTFail :: nat where
  "kHIDUsage_KeyboardPOSTFail = 0x02"

definition kHIDUsage_KeyboardErrorUndefined :: nat where
  "kHIDUsage_KeyboardErrorUndefined = 0x03"

definition kHIDUsage_KeyboardPower :: nat where
  "kHIDUsage_KeyboardPower = 0x66"

definition kIOHIDElementTypeInput_Button :: nat where
  "kIOHIDElementTypeInput_Button = 2"

text \<open>
  A Core Foundation value as the code inspects it: \<open>CFGetTypeID\<close> tells numbers from
  strings from everything else, and \<open>CFNumberGetValue\<close> with \<open>kCFNumberLongType\<close>
  stores a \<open>long\<close> and returns whether the conversion was lossless. A string is kept
  as its UTF-8 bytes. A \<open>CFTypeRef\<close> is \<open>None\<close> when it is the null reference.
\<close>

datatype CFType = CFNumber long bool | CFString string | CFOther

type_synonym CFTypeRef = "CFType option"
type_synonym CFDictionary = "string \<Rightarrow> CFType option"

fun isCFNumber :: "CFType \<Rightarrow> bool" where
  "isCFNumber (CFNumber v exact) = True"
| "isCFNumber _ = False"

fun isCFString :: "CFType \<Rightarrow> bool" where
  "isCFString (CFString s) = True"
| "isCFString _ = False"

fun CFNumberGetValue :: "CFType \<Rightarrow> bool \<times> long" where
  "CFNumberGetValue (CFNumber v exact) = (exact, v)"
| "CFNumberGetValue _ = (False, 0)"

definition kIOHIDElementCookieKey :: string where
  "kIOHIDElementCookieKey = ''ElementCookie''"

definition kIOHIDElementUsageKey :: string where
  "kIOHIDElementUsageKey = ''Usage''"

definition kIOHIDElementUsagePageKey :: string where
  "kIOHIDElementUsagePageKey = ''UsagePage''"

record IOHIDEventStruct =
  eventType :: nat
  elementCookie :: IOHIDElementCookie
  eventValue :: "32 word"

subsection \<open>Build configuration and abnormal termination\<close>

text \<open>
  \<open>assert\<close> is compiled in unless \<open>NDEBUG\<close> is defined, and a failed assertion
  aborts the process; \<open>DebugCheckErrorKeys\<close> has a body only under \<open>_DEBUG\<close>.
  Dereferencing the empty \<open>m_pimpl\<close> or a null interface pointer, indexing the key
  vector out of range, and using a local variable that was never given a value are the
  other ways a member function can stop without returning.
\<close>

record Build =
  assertsEnabled :: bool
  debugChecks :: bool

datatype crash = AssertionFailed string | NullDereference | OutOfRange | IndeterminateRead

subsection \<open>The objects\<close>

record PerKeyData =
  name :: string
  usbOfficialUsageID :: "32 word"
  macCookieValue :: IOHIDElementCookie
  mustBeIgnoredByOurApplication :: bool

record PrivateImpl =
  m_hidDevice :: io_object_t
  m_hidDeviceInterface :: pointer
  m_plugInInterface :: pointer
  m_hidQueue :: pointer

datatype DriverCall =
    IOServiceMatching
  | IOServiceGetMatchingService
  | IOCreatePlugInInterfaceForService io_object_t
  | IORegistryEntryCreateCFProperty io_object_t string
  | QueryInterface pointer
  | DeviceOpen pointer
  | CopyMatchingElements pointer
  | GetElementValue pointer IOHIDElementCookie
  | AllocQueue pointer
  | QueueCreate pointer
  | QueueStart pointer
  | QueueAddElement pointer IOHIDElementCookie
  | QueueGetNextEvent pointer
  | DeviceClose pointer
  | DeviceRelease pointer
  | IODestroyPlugInInterface pointer
  | QueueRelease pointer
  | IOObjectRelease io_object_t

record Helper =
  m_pimpl :: "PrivateImpl option"
  m_keys :: "PerKeyData list"
  m_errorLoggerFunctor :: bool
  m_deviceInformationProperties :: "string list"
  m_queueEnabled :: bool
  driverCalls :: "DriverCall list"
  logged :: "string list"

text \<open>
  \<open>m_errorLoggerFunctor\<close> records whether the \<open>boost::function\<close> is non-empty;
  \<open>logged\<close> is what it has been called with.
\<close>

definition LogErrorWhenFunctorIsntEmpty :: "string \<Rightarrow> Helper \<Rightarrow> Helper" where
  "LogErrorWhenFunctorIsntEmpty err s =
     (if m_errorLoggerFunctor s then s\<lparr>logged := logged s @ [err]\<rparr> else s)"

definition driverCall :: "DriverCall \<Rightarrow> Helper \<Rightarrow> Helper" where
  "driverCall c s = s\<lparr>driverCalls := driverCalls s @ [c]\<rparr>"

subsection \<open>The key table\<close>

definition PerKeyData_ctor :: "string \<Rightarrow> 32 word \<Rightarrow> IOHIDElementCookie \<Rightarrow> bool \<Rightarrow> PerKeyData" where
  "PerKeyData_ctor keyName usageId cookie ignore =
     \<lparr>name = keyName, usbOfficialUsageID = usageId, macCookieValue = cookie,
      mustBeIgnoredByOurApplication = ignore\<rparr>"

definition PushOneItem ::
  "PerKeyData list \<Rightarrow> string \<Rightarrow> 32 word \<Rightarrow> IOHIDElementCookie \<Rightarrow> bool \<Rightarrow> PerKeyData list" where
  "PushOneItem keysVector keyName usageId cookie ignore =
     keysVector @ [PerKeyData_ctor keyName usageId cookie ignore]"

text \<open>
  The arguments of the successive \<open>PushOneItem\<close> calls of \<open>PopulateVectorOfKeyInfo\<close>,
  in source order: the name, the value of the \<open>kHIDUsage_\<close> constant of that name in
  \<^verbatim>\<open>IOHIDUsageTables.h\<close>, and whether \<open>FORCE_APPLICATION_TO_IGNORE_THIS_KEY\<close> is
  passed (the parameter defaults to \<open>false\<close>). The cookie argument is \<open>0\<close> in every call.
\<close>

definition keyTableRows :: "(string \<times> 32 word \<times> bool) list" where
  "keyTableRows = [
    (''BOGUS PLACEHOLDER AT INDEX ZERO'', 0, False),
    (''kHIDUsage_KeyboardErrorRollOver'', 1, True),
    (''kHIDUsage_KeyboardPOSTFail'', 2, True),
    (''kHIDUsage_KeyboardErrorUndefined'', 3, True),
    (''kHIDUsage_KeyboardA'', 4, False),
    (''kHIDUsage_KeyboardB'', 5, False),
    (''kHIDUsage_KeyboardC'', 6, False),
    (''kHIDUsage_KeyboardD'', 7, False),
    (''kHIDUsage_KeyboardE'', 8, False),
    (''kHIDUsage_KeyboardF'', 9, False),
    (''kHIDUsage_KeyboardG'', 10, False),
    (''kHIDUsage_KeyboardH'', 11, False),
    (''kHIDUsage_KeyboardI'', 12, False),
    (''kHIDUsage_KeyboardJ'', 13, False),
    (''kHIDUsage_KeyboardK'', 14, False),
    (''kHIDUsage_KeyboardL'', 15, False),
    (''kHIDUsage_KeyboardM'', 16, False),
    (''kHIDUsage_KeyboardN'', 17, False),
    (''kHIDUsage_KeyboardO'', 18, False),
    (''kHIDUsage_KeyboardP'', 19, False),
    (''kHIDUsage_KeyboardQ'', 20, False),
    (''kHIDUsage_KeyboardR'', 21, False),
    (''kHIDUsage_KeyboardS'', 22, False),
    (''kHIDUsage_KeyboardT'', 23, False),
    (''kHIDUsage_KeyboardU'', 24, False),
    (''kHIDUsage_KeyboardV'', 25, False),
    (''kHIDUsage_KeyboardW'', 26, False),
    (''kHIDUsage_KeyboardX'', 27, False),
    (''kHIDUsage_KeyboardY'', 28, False),
    (''kHIDUsage_KeyboardZ'', 29, False),
    (''kHIDUsage_Keyboard1'', 30, False),
    (''kHIDUsage_Keyboard2'', 31, False),
    (''kHIDUsage_Keyboard3'', 32, False),
    (''kHIDUsage_Keyboard4'', 33, False),
    (''kHIDUsage_Keyboard5'', 34, False),
    (''kHIDUsage_Keyboard6'', 35, False),
    (''kHIDUsage_Keyboard7'', 36, False),
    (''kHIDUsage_Keyboard8'', 37, False),
    (''kHIDUsage_Keyboard9'', 38, False),
    (''kHIDUsage_Keyboard0'', 39, False),
    (''kHIDUsage_KeyboardReturnOrEnter'', 40, False),
    (''kHIDUsage_KeyboardEscape'', 41, False),
    (''kHIDUsage_KeyboardDeleteOrBackspace'', 42, False),
    (''kHIDUsage_KeyboardTab'', 43, False),
    (''kHIDUsage_KeyboardSpacebar'', 44, False),
    (''kHIDUsage_KeyboardHyphen'', 45, False),
    (''kHIDUsage_KeyboardEqualSign'', 46, False),
    (''kHIDUsage_KeyboardOpenBracket'', 47, False),
    (''kHIDUsage_KeyboardCloseBracket'', 48, False),
    (''kHIDUsage_KeyboardBackslash'', 49, False),
    (''kHIDUsage_KeyboardNonUSPound'', 50, False),
    (''kHIDUsage_KeyboardSemicolon'', 51, False),
    (''kHIDUsage_KeyboardQuote'', 52, False),
    (''kHIDUsage_KeyboardGraveAccentAndTilde'', 53, False),
    (''kHIDUsage_KeyboardComma'', 54, False),
    (''kHIDUsage_KeyboardPeriod'', 55, False),
    (''kHIDUsage_KeyboardSlash'', 56, False),
    (''kHIDUsage_KeyboardCapsLock'', 57, False),
    (''kHIDUsage_KeyboardF1'', 58, True),
    (''kHIDUsage_KeyboardF2'', 59, True),
    (''kHIDUsage_KeyboardF3'', 60, True),
    (''kHIDUsage_KeyboardF4'', 61, True),
    (''kHIDUsage_KeyboardF5'', 62, True),
    (''kHIDUsage_KeyboardF6'', 63, True),
    (''kHIDUsage_KeyboardF7'', 64, True),
    (''kHIDUsage_KeyboardF8'', 65, True),
    (''kHIDUsage_KeyboardF9'', 66, True),
    (''kHIDUsage_KeyboardF10'', 67, True),
    (''kHIDUsage_KeyboardF11'', 68, True),
    (''kHIDUsage_KeyboardF12'', 69, True),
    (''kHIDUsage_KeyboardPrintScreen'', 70, True),
    (''kHIDUsage_KeyboardScrollLock'', 71, True),
    (''kHIDUsage_KeyboardPause'', 72, True),
    (''kHIDUsage_KeyboardInsert'', 73, True),
    (''kHIDUsage_KeyboardHome'', 74, True),
    (''kHIDUsage_KeyboardPageUp'', 75, True),
    (''kHIDUsage_KeyboardDeleteForward'', 76, True),
    (''kHIDUsage_KeyboardEnd'', 77, True),
    (''kHIDUsage_KeyboardPageDown'', 78, True),
    (''kHIDUsage_KeyboardRightArrow'', 79, True),
    (''kHIDUsage_KeyboardLeftArrow'', 80, True),
    (''kHIDUsage_KeyboardDownArrow'', 81, True),
    (''kHIDUsage_KeyboardUpArrow'', 82, True),
    (''kHIDUsage_KeypadNumLock'', 83, True),
    (''kHIDUsage_KeypadSlash'', 84, True),
    (''kHIDUsage_KeypadAsterisk'', 85, True),
    (''kHIDUsage_KeypadHyphen'', 86, True),
    (''kHIDUsage_KeypadPlus'', 87, True),
    (''kHIDUsage_KeypadEnter'', 88, True),
    (''kHIDUsage_Keypad1'', 89, True),
    (''kHIDUsage_Keypad2'', 90, True),
    (''kHIDUsage_Keypad3'', 91, True),
    (''kHIDUsage_Keypad4'', 92, True),
    (''kHIDUsage_Keypad5'', 93, True),
    (''kHIDUsage_Keypad6'', 94, True),
    (''kHIDUsage_Keypad7'', 95, True),
    (''kHIDUsage_Keypad8'', 96, True),
    (''kHIDUsage_Keypad9'', 97, True),
    (''kHIDUsage_Keypad0'', 98, True),
    (''kHIDUsage_KeypadPeriod'', 99, True),
    (''kHIDUsage_KeyboardNonUSBackslash'', 100, False),
    (''kHIDUsage_KeyboardApplication'', 101, False),
    (''kHIDUsage_KeyboardPower'', 102, True),
    (''kHIDUsage_KeypadEqualSign'', 103, True),
    (''kHIDUsage_KeyboardF13'', 104, True),
    (''kHIDUsage_KeyboardF14'', 105, True),
    (''kHIDUsage_KeyboardF15'', 106, True),
    (''kHIDUsage_KeyboardF16'', 107, True),
    (''kHIDUsage_KeyboardF17'', 108, True),
    (''kHIDUsage_KeyboardF18'', 109, True),
    (''kHIDUsage_KeyboardF19'', 110, True),
    (''kHIDUsage_KeyboardF20'', 111, True),
    (''kHIDUsage_KeyboardF21'', 112, True),
    (''kHIDUsage_KeyboardF22'', 113, True),
    (''kHIDUsage_KeyboardF23'', 114, True),
    (''kHIDUsage_KeyboardF24'', 115, True),
    (''kHIDUsage_KeyboardExecute'', 116, True),
    (''kHIDUsage_KeyboardHelp'', 117, True),
    (''kHIDUsage_KeyboardMenu'', 118, True),
    (''kHIDUsage_KeyboardSelect'', 119, True),
    (''kHIDUsage_KeyboardStop'', 120, True),
    (''kHIDUsage_KeyboardAgain'', 121, True),
    (''kHIDUsage_KeyboardUndo'', 122, True),
    (''kHIDUsage_KeyboardCut'', 123, True),
    (''kHIDUsage_KeyboardCopy'', 124, True),
    (''kHIDUsage_KeyboardPaste'', 125, True),
    (''kHIDUsage_KeyboardFind'', 126, True),
    (''kHIDUsage_KeyboardMute'', 127, True),
    (''kHIDUsage_KeyboardVolumeUp'', 128, True),
    (''kHIDUsage_KeyboardVolumeDown'', 129, True),
    (''kHIDUsage_KeyboardLockingCapsLock'', 130, True),
    (''kHIDUsage_KeyboardLockingNumLock'', 131, True),
    (''kHIDUsage_KeyboardLockingScrollLock'', 132, True),
    (''kHIDUsage_KeypadComma'', 133, True),
    (''kHIDUsage_KeypadEqualSignAS400'', 134, True),
    (''kHIDUsage_KeyboardInternational1'', 135, False),
    (''kHIDUsage_KeyboardInternational2'', 136, False),
    (''kHIDUsage_KeyboardInternational3'', 137, False),
    (''kHIDUsage_KeyboardInternational4'', 138, False),
    (''kHIDUsage_KeyboardInternational5'', 139, False),
    (''kHIDUsage_KeyboardInternational6'', 140, False),
    (''kHIDUsage_KeyboardInternational7'', 141, False),
    (''kHIDUsage_KeyboardInternational8'', 142, False),
    (''kHIDUsage_KeyboardInternational9'', 143, False),
    (''kHIDUsage_KeyboardLANG1'', 144, False),
    (''kHIDUsage_KeyboardLANG2'', 145, False),
    (''kHIDUsage_KeyboardLANG3'', 146, False),
    (''kHIDUsage_KeyboardLANG4'', 147, False),
    (''kHIDUsage_KeyboardLANG5'', 148, False),
    (''kHIDUsage_KeyboardLANG6'', 149, False),
    (''kHIDUsage_KeyboardLANG7'', 150, False),
    (''kHIDUsage_KeyboardLANG8'', 151, False),
    (''kHIDUsage_KeyboardLANG9'', 152, False),
    (''kHIDUsage_KeyboardAlternateErase'', 153, False),
    (''kHIDUsage_KeyboardSysReqOrAttention'', 154, False),
    (''kHIDUsage_KeyboardCancel'', 155, False),
    (''kHIDUsage_KeyboardClear'', 156, False),
    (''kHIDUsage_KeyboardPrior'', 157, False),
    (''kHIDUsage_KeyboardReturn'', 158, False),
    (''kHIDUsage_KeyboardSeparator'', 159, False),
    (''kHIDUsage_KeyboardOut'', 160, False),
    (''kHIDUsage_KeyboardOper'', 161, False),
    (''kHIDUsage_KeyboardClearOrAgain'', 162, False),
    (''kHIDUsage_KeyboardCrSelOrProps'', 163, False),
    (''kHIDUsage_KeyboardExSel'', 164, False)
  ]"

definition pushRow :: "PerKeyData list \<Rightarrow> string \<times> 32 word \<times> bool \<Rightarrow> PerKeyData list" where
  "pushRow keysVector row =
     (case row of (keyName, usageId, ignore) \<Rightarrow> PushOneItem keysVector keyName usageId 0 ignore)"

definition PopulateVectorOfKeyInfo :: "Build \<Rightarrow> Helper \<Rightarrow> crash + (bool \<times> Helper)" where
  "PopulateVectorOfKeyInfo b s =
     (if m_keys s \<noteq> [] then
        (if assertsEnabled b
         then Inl (AssertionFailed ''you should only ever call this function ONCE'')
         else Inr (False, s))
      else Inr (True, s\<lparr>m_keys := foldl pushRow (m_keys s) keyTableRows\<rparr>))"

subsection \<open>What the driver layer answers\<close>

text \<open>
  One field per IOKit (or allocating Core Foundation) entry point the code calls.
  \<open>getElementValue\<close> gives the status and the value found in \<open>theEvent\<close> after the
  call; \<open>getNextEvent\<close> gives the answers to the successive calls of one drain, the
  first call being number \<open>0\<close>.
\<close>

text \<open>
  What the local \<open>CFArrayRef elements\<close> of \<open>FindKeypressCookies\<close> holds after the call of
  \<open>copyMatchingElements\<close>. The code never initialises it, so unless the driver stored
  something through the out-parameter (an array, or the null reference) its value is
  indeterminate.
\<close>

datatype CFArrayRef = Indeterminate | NullArray | Array "CFDictionary list"

record Driver =
  serviceMatchingDict :: bool
  usagePageRefCreated :: bool
  usageRefCreated :: bool
  matchingService :: io_object_t
  createPlugIn :: "IOReturn \<times> pointer"
  registryProperty :: "string \<Rightarrow> CFTypeRef"
  queryInterface :: "HRESULT \<times> pointer"
  deviceOpen :: IOReturn
  copyMatchingElements :: "IOReturn \<times> CFArrayRef"
  getElementValue :: "IOHIDElementCookie \<Rightarrow> IOReturn \<times> 32 word"
  allocQueue :: pointer
  queueCreate :: IOReturn
  queueStart :: IOReturn
  addElement :: "IOHIDElementCookie \<Rightarrow> IOReturn"
  getNextEvent :: "nat \<Rightarrow> IOReturn \<times> IOHIDEventStruct"

subsection \<open>Helpers: sequencing, loops, number formatting\<close>

fun forEach :: "('x \<Rightarrow> 'a \<Rightarrow> crash + 'a) \<Rightarrow> 'x list \<Rightarrow> 'a \<Rightarrow> crash + 'a" where
  "forEach body [] a = Inr a"
| "forEach body (x # xs) a =
     (case body x a of Inl c \<Rightarrow> Inl c | Inr a' \<Rightarrow> forEach body xs a')"

text \<open>\<open>l && r\<close> on member functions returning \<open>bool\<close>: \<open>r\<close> runs only if \<open>l\<close> returned true.\<close>

definition andAlso ::
  "crash + (bool \<times> Helper) \<Rightarrow> (Helper \<Rightarrow> crash + (bool \<times> Helper)) \<Rightarrow> crash + (bool \<times> Helper)" where
  "andAlso l r =
     (case l of Inl c \<Rightarrow> Inl c | Inr (ok, s) \<Rightarrow> if ok then r s else Inr (False, s))"

text \<open>The decimal digits of a non-negative integer.\<close>

function decimal :: "int \<Rightarrow> string" where
  "decimal n =
     (if n < 10 then [''0123456789'' ! nat n]
      else decimal (n div 10) @ [''0123456789'' ! nat (n mod 10)])"
  by pat_completeness auto

termination
  by (relation "measure nat") auto

declare decimal.simps [simp del]

text \<open>\<open>boost::format("%1%")\<close> applied to a signed integer.\<close>

definition formatInt :: "int \<Rightarrow> string" where
  "formatInt i = (if i < 0 then CHR ''-'' # decimal (- i) else decimal i)"

subsection \<open>Release of the driver resources\<close>

definition PrivateImpl_ctor :: PrivateImpl where
  "PrivateImpl_ctor =
     \<lparr>m_hidDevice = 0, m_hidDeviceInterface = 0, m_plugInInterface = 0, m_hidQueue = 0\<rparr>"

text \<open>The driver calls of \<open>~PrivateImpl\<close>, in program order.\<close>

definition PrivateImpl_dtor :: "PrivateImpl \<Rightarrow> DriverCall list" where
  "PrivateImpl_dtor p =
     (if m_hidDeviceInterface p \<noteq> 0
      then [DeviceClose (m_hidDeviceInterface p), DeviceRelease (m_hidDeviceInterface p)]
      else []) @
     (if m_plugInInterface p \<noteq> 0 then [IODestroyPlugInInterface (m_plugInInterface p)] else []) @
     (if m_hidQueue p \<noteq> 0 then [QueueRelease (m_hidQueue p)] else []) @
     (if m_hidDevice p \<noteq> 0 then [IOObjectRelease (m_hidDevice p)] else [])"

text \<open>
  \<open>m_pimpl.reset()\<close>: the helper is the only owner of the \<open>PrivateImpl\<close> (the class is
  not copyable), so resetting a non-empty pointer runs the destructor. The implicit
  destructor of the helper does the same to \<open>m_pimpl\<close>.
\<close>

definition reset_pimpl :: "Helper \<Rightarrow> Helper" where
  "reset_pimpl s =
     (case m_pimpl s of
        None \<Rightarrow> s
      | Some p \<Rightarrow> s\<lparr>m_pimpl := None, driverCalls := driverCalls s @ PrivateImpl_dtor p\<rparr>)"


subsection \<open>Device matching and interface negotiation\<close>

definition FindKeyboard :: "Driver \<Rightarrow> Helper \<Rightarrow> crash + (bool \<times> Helper)" where
  "FindKeyboard d s =
     (let s1 = driverCall IOServiceMatching s in
      if \<not> serviceMatchingDict d
      then Inr (False,
             LogErrorWhenFunctorIsntEmpty
               ''Failed to retrieve device key matching dictionary.'' s1)
      else
        (case (if \<not> usagePageRefCreated d \<or> \<not> usageRefCreated d
               then (0, LogErrorWhenFunctorIsntEmpty
                          ''Failed to find kHIDPage_GenericDesktop and/or kHIDUsage_GD_Keyboard.'' s1)
               else (matchingService d, driverCall IOServiceGetMatchingService s1)) of
           (result, s2) \<Rightarrow>
             (case m_pimpl s2 of
                None \<Rightarrow> Inl NullDereference
              | Some p \<Rightarrow>
                  Inr (result \<noteq> 0, s2\<lparr>m_pimpl := Some (p\<lparr>m_hidDevice := result\<rparr>)\<rparr>))))"

definition CF2StdString :: "CFTypeRef \<Rightarrow> string" where
  "CF2StdString cf_str = (case cf_str of Some (CFString str) \<Rightarrow> str | _ \<Rightarrow> [])"

definition StoreOneProperty :: "Driver \<Rightarrow> string \<Rightarrow> Helper \<Rightarrow> crash + Helper" where
  "StoreOneProperty d propertyKey s =
     (case m_pimpl s of
        None \<Rightarrow> Inl NullDereference
      | Some p \<Rightarrow>
          (let s1 = driverCall (IORegistryEntryCreateCFProperty (m_hidDevice p) propertyKey) s in
           case registryProperty d propertyKey of
             None \<Rightarrow> Inr s1
           | Some v \<Rightarrow>
               (let property = CF2StdString (Some (CFString propertyKey));
                    asStdString =
                      (if isCFNumber v then formatInt (sint (snd (CFNumberGetValue v)))
                       else if isCFString v then CF2StdString (Some v)
                       else ''<type error>'')
                in Inr (s1\<lparr>m_deviceInformationProperties :=
                          m_deviceInformationProperties s1 @ [property @ '': '' @ asStdString]\<rparr>))))"

text \<open>The property keys of \<^verbatim>\<open>IOHIDKeys.h\<close>, in the order \<open>GetKeyboardProperties\<close> asks for them.\<close>

definition keyboardPropertyKeys :: "string list" where
  "keyboardPropertyKeys =
     [''Transport'', ''VendorID'', ''VendorIDSource'', ''ProductID'', ''VersionNumber'',
      ''Manufacturer'', ''Product'', ''SerialNumber'', ''CountryCode'', ''LocationID'']"

definition GetKeyboardProperties :: "Driver \<Rightarrow> Helper \<Rightarrow> crash + Helper" where
  "GetKeyboardProperties d s = forEach (StoreOneProperty d) keyboardPropertyKeys s"

definition CreatePluginInterface :: "Driver \<Rightarrow> Helper \<Rightarrow> crash + (bool \<times> Helper)" where
  "CreatePluginInterface d s =
     (case m_pimpl s of
        None \<Rightarrow> Inl NullDereference
      | Some p \<Rightarrow>
          (case createPlugIn d of
             (ioReturnValue, plug) \<Rightarrow>
               (let s1 = driverCall (IOCreatePlugInInterfaceForService (m_hidDevice p))
                           (s\<lparr>m_pimpl := Some (p\<lparr>m_plugInInterface := plug\<rparr>)\<rparr>) in
                if ioReturnValue \<noteq> kIOReturnSuccess
                then Inr (False,
                       LogErrorWhenFunctorIsntEmpty
                         (''IOCreatePlugInInterfaceForService failed with value '' @
                            formatInt (sint ioReturnValue)) s1)
                else (case GetKeyboardProperties d s1 of
                        Inl c \<Rightarrow> Inl c
                      | Inr s2 \<Rightarrow> Inr (True, s2)))))"

definition CreateDeviceInterface :: "Driver \<Rightarrow> Helper \<Rightarrow> crash + (bool \<times> Helper)" where
  "CreateDeviceInterface d s =
     (case m_pimpl s of
        None \<Rightarrow> Inl NullDereference
      | Some p \<Rightarrow>
          if m_plugInInterface p = 0 then Inl NullDereference
          else
            (case queryInterface d of
               (plugInResult, iface) \<Rightarrow>
                 (let s1 = driverCall (QueryInterface (m_plugInInterface p))
                             (s\<lparr>m_pimpl := Some (p\<lparr>m_hidDeviceInterface := iface\<rparr>)\<rparr>) in
                  if plugInResult \<noteq> S_OK
                  then Inr (False,
                         LogErrorWhenFunctorIsntEmpty ''Failed to create IOHIDDeviceInterface.'' s1)
                  else if iface = 0 then Inl NullDereference
                  else
                    (let s2 = driverCall (DeviceOpen iface) s1 in
                     if deviceOpen d \<noteq> kIOReturnSuccess
                     then Inr (False,
                            LogErrorWhenFunctorIsntEmpty
                              (''Failed to open the IOHIDDeviceInterface. Failed with value '' @
                                 formatInt (sint (deviceOpen d))) s2)
                     else Inr (True, s2)))))"

subsection \<open>Element resolution\<close>

text \<open>
  The test applied to each of the three fields of a descriptor: the value is absent,
  or is not a number, or does not convert to \<open>long\<close>.
\<close>

definition readLong :: "CFTypeRef \<Rightarrow> long option" where
  "readLong temp_object_reused =
     (case temp_object_reused of
        None \<Rightarrow> None
      | Some t \<Rightarrow>
          if \<not> isCFNumber t then None
          else (case CFNumberGetValue t of (ok, v) \<Rightarrow> if ok then Some v else None))"

text \<open>
  The body of the \<open>for\<close> loop of \<open>FindKeypressCookies\<close> for one descriptor. \<open>wxLogDebug\<close>
  expands to nothing in this file, so the branches that only call it change nothing.
\<close>

definition scanElement :: "Build \<Rightarrow> CFDictionary \<Rightarrow> Helper \<Rightarrow> crash + Helper" where
  "scanElement b element s =
     (case readLong (element kIOHIDElementCookieKey) of
        None \<Rightarrow> Inr s
      | Some n \<Rightarrow>
          (let cookie = (ucast n :: IOHIDElementCookie) in
           case readLong (element kIOHIDElementUsageKey) of
             None \<Rightarrow> Inr (LogErrorWhenFunctorIsntEmpty ''A cookie without a usage id?'' s)
           | Some usage \<Rightarrow>
               (case readLong (element kIOHIDElementUsagePageKey) of
                  None \<Rightarrow> Inr (LogErrorWhenFunctorIsntEmpty ''A cookie without a usage page?'' s)
                | Some usagePage \<Rightarrow>
                    if usagePage = kHIDPage_KeyboardOrKeypad then
                      (if sint usage \<ge> int (length (m_keys s)) then Inr s
                       else if sint usage < 0 then Inr s
                       else if macCookieValue (m_keys s ! nat (sint usage)) \<noteq> 0 then
                         (if assertsEnabled b
                          then Inl (AssertionFailed ''we found the same usage key twice (or more) ?'')
                          else Inr s)
                       else Inr (s\<lparr>m_keys := (m_keys s)
                                   [nat (sint usage) :=
                                      (m_keys s ! nat (sint usage))\<lparr>macCookieValue := cookie\<rparr>]\<rparr>))
                    else Inr s)))"

text \<open>The counting loop that follows the scan: \<open>score\<close> is a C \<open>int\<close> starting at \<open>0\<close>.\<close>

fun countLocated :: "PerKeyData list \<Rightarrow> int \<Rightarrow> int" where
  "countLocated [] score = score"
| "countLocated (k # ks) score =
     countLocated ks
       (if macCookieValue k \<noteq> 0 \<and> mustBeIgnoredByOurApplication k = False
        then score + 1 else score)"

text \<open>
  \<open>FindKeypressCookies\<close>. The \<open>for\<close> loop runs only when \<open>copyMatchingElements\<close> succeeded
  and reads \<open>elements\<close> (\<open>CFArrayGetCount\<close> of the null reference does not return). After
  the counting loop, \<open>if(elements) CFRelease(elements)\<close> reads \<open>elements\<close> on every path,
  also when the call failed and left it as it was.
\<close>

definition FindKeypressCookies :: "Build \<Rightarrow> Driver \<Rightarrow> Helper \<Rightarrow> crash + (bool \<times> Helper)" where
  "FindKeypressCookies b d s =
     (case m_pimpl s of
        None \<Rightarrow> Inl NullDereference
      | Some p \<Rightarrow>
          if m_hidDeviceInterface p = 0 then Inl NullDereference
          else
            (case copyMatchingElements d of
               (ioReturnValue, elements) \<Rightarrow>
                 (let s1 = driverCall (CopyMatchingElements (m_hidDeviceInterface p)) s in
                  case (if ioReturnValue \<noteq> kIOReturnSuccess
                        then Inr (LogErrorWhenFunctorIsntEmpty
                                    (''copyMatchingElements failed. code: '' @
                                       formatInt (sint ioReturnValue)) s1)
                        else (case elements of
                                Indeterminate \<Rightarrow> Inl IndeterminateRead
                              | NullArray \<Rightarrow> Inl NullDereference
                              | Array descriptors \<Rightarrow> forEach (scanElement b) descriptors s1)) of
                    Inl c \<Rightarrow> Inl c
                  | Inr s2 \<Rightarrow>
                      (let score = countLocated (m_keys s2) 0 in
                       case elements of
                         Indeterminate \<Rightarrow> Inl IndeterminateRead
                       | _ \<Rightarrow> Inr (score > 40, s2)))))"

subsection \<open>The event queue\<close>

definition CreateQueue :: "Driver \<Rightarrow> Helper \<Rightarrow> crash + (bool \<times> Helper)" where
  "CreateQueue d s =
     (case m_pimpl s of
        None \<Rightarrow> Inl NullDereference
      | Some p \<Rightarrow>
          if m_hidDeviceInterface p = 0 then Inl NullDereference
          else
            (let q = allocQueue d;
                 s1 = driverCall (AllocQueue (m_hidDeviceInterface p))
                        (s\<lparr>m_pimpl := Some (p\<lparr>m_hidQueue := q\<rparr>)\<rparr>) in
             if q = 0
             then Inr (False,
                    LogErrorWhenFunctorIsntEmpty
                      ''Failed to alloc IOHIDQueueInterface ** via allocQueue'' s1)
             else
               (let s2 = driverCall (QueueCreate q) s1 in
                if kIOReturnSuccess \<noteq> queueCreate d
                then Inr (False,
                       LogErrorWhenFunctorIsntEmpty
                         (''Failed to create queue. Error: '' @ formatInt (sint (queueCreate d))) s2)
                else
                  (let s3 = driverCall (QueueStart q) s2 in
                   if queueStart d \<noteq> kIOReturnSuccess
                   then Inr (False, LogErrorWhenFunctorIsntEmpty ''Failed to start queue.'' s3)
                   else Inr (True, s3)))))"

text \<open>One turn of the \<open>while\<close> loop of \<open>AddElementsToQueue\<close>; the pair carries \<open>success\<close>.\<close>

definition addOneElement ::
  "Build \<Rightarrow> Driver \<Rightarrow> PerKeyData \<Rightarrow> bool \<times> Helper \<Rightarrow> crash + (bool \<times> Helper)" where
  "addOneElement b d k acc =
     (case acc of
        (success, s) \<Rightarrow>
          if macCookieValue k \<noteq> 0 \<and> mustBeIgnoredByOurApplication k = False then
            (case m_pimpl s of
               None \<Rightarrow> Inl NullDereference
             | Some p \<Rightarrow>
                 if m_hidQueue p = 0 then Inl NullDereference
                 else
                   (let s1 = driverCall (QueueAddElement (m_hidQueue p) (macCookieValue k)) s in
                    if addElement d (macCookieValue k) \<noteq> kIOReturnSuccess
                    then (if assertsEnabled b
                          then Inl (AssertionFailed ''failed to add element to the queue'')
                          else Inr (False, s1))
                    else Inr (success, s1)))
          else Inr (success, s))"

definition AddElementsToQueue :: "Build \<Rightarrow> Driver \<Rightarrow> Helper \<Rightarrow> crash + (bool \<times> Helper)" where
  "AddElementsToQueue b d s = forEach (addOneElement b d) (m_keys s) (True, s)"

text \<open>
  The \<open>while\<close> loop of \<open>ReadFromQueue_Experimental\<close>. Its body builds a message string
  that is never used and calls \<open>wxLogDebug\<close>, so a turn leaves nothing behind but the
  call of \<open>getNextEvent\<close>. The loop ends at the first answer that is not
  \<open>kIOReturnSuccess\<close> and yields that status; with a driver that answers
  \<open>kIOReturnSuccess\<close> for ever it does not end, which is the value \<open>None\<close>.
\<close>

partial_function (option) drainQueue ::
  "(nat \<Rightarrow> IOReturn \<times> IOHIDEventStruct) \<Rightarrow> pointer \<Rightarrow> nat \<Rightarrow> Helper \<Rightarrow> (IOReturn \<times> Helper) option" where
  "drainQueue answers q i s =
     (let s1 = driverCall (QueueGetNextEvent q) s in
      if kIOReturnSuccess = fst (answers i)
      then drainQueue answers q (Suc i) s1
      else Some (fst (answers i), s1))"

declare drainQueue.simps [code]

definition ReadFromQueue_Experimental :: "Build \<Rightarrow> Driver \<Rightarrow> Helper \<Rightarrow> (crash + Helper) option" where
  "ReadFromQueue_Experimental b d s =
     (case m_pimpl s of
        None \<Rightarrow> Some (Inr s)
      | Some p \<Rightarrow>
          if m_hidQueue p = 0 then Some (Inr s)
          else
            (case drainQueue (getNextEvent d) (m_hidQueue p) 0 s of
               None \<Rightarrow> None
             | Some (ioReturnValue, s1) \<Rightarrow>
                 if ioReturnValue \<noteq> kIOReturnUnderrun then
                   (if kIOReturnSuccess = ioReturnValue \<and> assertsEnabled b
                    then Some (Inl (AssertionFailed ''if we had gotten this, then we should have kept looping''))
                    else Some (Inr (LogErrorWhenFunctorIsntEmpty
                                      (''getNextEvent failed. code: '' @ formatInt (sint ioReturnValue))
                                      s1)))
                 else Some (Inr s1)))"

subsection \<open>Polling\<close>

text \<open>One of the four checks of \<open>DebugCheckErrorKeys\<close>: the key at a fixed index.\<close>

definition debugCheckKey :: "Driver \<Rightarrow> nat \<times> string \<Rightarrow> Helper \<Rightarrow> crash + Helper" where
  "debugCheckKey d key s =
     (case key of
        (usage, label) \<Rightarrow>
          (case m_pimpl s of
             None \<Rightarrow> Inl NullDereference
           | Some p \<Rightarrow>
               if m_hidDeviceInterface p = 0 then Inl NullDereference
               else if usage \<ge> length (m_keys s) then Inl OutOfRange
               else
                 (let cookie = macCookieValue (m_keys s ! usage);
                      s1 = driverCall (GetElementValue (m_hidDeviceInterface p) cookie) s in
                  case getElementValue d cookie of
                    (ioReturnValue, theValue) \<Rightarrow>
                      if ioReturnValue = kIOReturnSuccess \<and> theValue \<noteq> 0
                      then Inr (LogErrorWhenFunctorIsntEmpty label s1)
                      else Inr s1)))"

definition DebugCheckErrorKeys :: "Build \<Rightarrow> Driver \<Rightarrow> Helper \<Rightarrow> crash + Helper" where
  "DebugCheckErrorKeys b d s =
     (if debugChecks b then
        forEach (debugCheckKey d)
          [(kHIDUsage_KeyboardErrorRollOver, ''kHIDUsage_KeyboardErrorRollOver''),
           (kHIDUsage_KeyboardPOSTFail, ''kHIDUsage_KeyboardPOSTFail''),
           (kHIDUsage_KeyboardErrorUndefined, ''kHIDUsage_KeyboardErrorUndefined''),
           (kHIDUsage_KeyboardPower, ''kHIDUsage_KeyboardPower'')] s
      else Inr s)"

text \<open>One turn of the \<open>while\<close> loop of \<open>CountOfCurrentlyDepressedKeys\<close>; the pair carries \<open>score\<close>.\<close>

definition pollOneKey ::
  "Build \<Rightarrow> Driver \<Rightarrow> PerKeyData \<Rightarrow> int \<times> Helper \<Rightarrow> crash + (int \<times> Helper)" where
  "pollOneKey b d k acc =
     (case acc of
        (score, s) \<Rightarrow>
          if macCookieValue k \<noteq> 0 \<and> mustBeIgnoredByOurApplication k = False then
            (case m_pimpl s of
               None \<Rightarrow> Inl NullDereference
             | Some p \<Rightarrow>
                 if m_hidDeviceInterface p = 0 then Inl NullDereference
                 else
                   (let s1 = driverCall
                               (GetElementValue (m_hidDeviceInterface p) (macCookieValue k)) s in
                    case getElementValue d (macCookieValue k) of
                      (ioReturnValue, theValue) \<Rightarrow>
                        if ioReturnValue \<noteq> kIOReturnSuccess \<and> assertsEnabled b
                        then Inl (AssertionFailed ''failed to get element value.'')
                        else Inr (if theValue \<noteq> 0 then score + 1 else score, s1)))
          else Inr (score, s))"

definition CountOfCurrentlyDepressedKeys ::
  "Build \<Rightarrow> Driver \<Rightarrow> Helper \<Rightarrow> crash + (int \<times> Helper)" where
  "CountOfCurrentlyDepressedKeys b d s =
     (case m_pimpl s of
        None \<Rightarrow> Inr (- 1, s)
      | Some p \<Rightarrow>
          (case DebugCheckErrorKeys b d s of
             Inl c \<Rightarrow> Inl c
           | Inr s1 \<Rightarrow> forEach (pollOneKey b d) (m_keys s1) (0, s1)))"

subsection \<open>Initialization\<close>

definition LogInitializationError :: "string \<Rightarrow> Helper \<Rightarrow> Helper" where
  "LogInitializationError errorDesc s =
     (let keyboardInfo = concat (map (\<lambda>p. p @ [CHR 0x0A]) (m_deviceInformationProperties s)) in
      LogErrorWhenFunctorIsntEmpty
        (if m_deviceInformationProperties s = [] then errorDesc
         else errorDesc @ '' Keyboard description follows:'' @ [CHR 0x0A] @ keyboardInfo) s)"

text \<open>The condition of the first \<open>if\<close> of \<open>Initialize\<close>: five stages joined by \<open>&&\<close>.\<close>

definition basicInitialization :: "Build \<Rightarrow> Driver \<Rightarrow> Helper \<Rightarrow> crash + (bool \<times> Helper)" where
  "basicInitialization b d s =
     andAlso (andAlso (andAlso (andAlso
       (FindKeyboard d s)
       (CreatePluginInterface d))
       (CreateDeviceInterface d))
       (PopulateVectorOfKeyInfo b))
       (FindKeypressCookies b d)"

definition Initialize :: "Build \<Rightarrow> Driver \<Rightarrow> Helper \<Rightarrow> crash + Helper" where
  "Initialize b d s =
     (case basicInitialization b d s of
        Inl c \<Rightarrow> Inl c
      | Inr (basicSuccess, s1) \<Rightarrow>
          (let s2 = (if basicSuccess then s1
                     else reset_pimpl
                            (LogInitializationError ''Failed basic keyboard initialization.'' s1)) in
           if basicSuccess \<and> m_queueEnabled s2 then
             (case andAlso (CreateQueue d s2) (AddElementsToQueue b d) of
                Inl c \<Rightarrow> Inl c
              | Inr (ok, s3) \<Rightarrow>
                  Inr (if ok then s3
                       else LogInitializationError
                              ''Failed basic keyboard input queue initialization.'' s3))
           else Inr s2))"

text \<open>
  The state the constructor's member initializers leave, before \<open>Initialize\<close> runs:
  a fresh \<open>PrivateImpl\<close>, an empty key vector, no properties, nothing called or logged.
\<close>

definition newHelper :: "bool \<Rightarrow> bool \<Rightarrow> Helper" where
  "newHelper enableQueue errorLoggerFunctor =
     \<lparr>m_pimpl = Some PrivateImpl_ctor, m_keys = [], m_errorLoggerFunctor = errorLoggerFunctor,
      m_deviceInformationProperties = [], m_queueEnabled = enableQueue,
      driverCalls = [], logged = []\<rparr>"

definition HelperForKeyboardReaderIOKit :: "Build \<Rightarrow> Driver \<Rightarrow> bool \<Rightarrow> bool \<Rightarrow> crash + Helper" where
  "HelperForKeyboardReaderIOKit b d enableQueue errorLoggerFunctor =
     Initialize b d (newHelper enableQueue errorLoggerFunctor)"

subsection \<open>Notions of the specification and sample inputs\<close>

text \<open>
  The number of key table entries that have a bound element handle and are not marked
  ignored.
\<close>

definition resolvedNonIgnored :: "PerKeyData list \<Rightarrow> nat" where
  "resolvedNonIgnored ks =
     length (filter (\<lambda>k. macCookieValue k \<noteq> 0 \<and> \<not> mustBeIgnoredByOurApplication k) ks)"


text \<open>The table a first call of \<open>PopulateVectorOfKeyInfo\<close> builds.\<close>

definition keyTable :: "PerKeyData list" where
  "keyTable = foldl pushRow [] keyTableRows"

text \<open>A build with \<open>NDEBUG\<close> defined and \<open>_DEBUG\<close> undefined.\<close>

definition releaseBuild :: Build where
  "releaseBuild = \<lparr>assertsEnabled = False, debugChecks = False\<rparr>"

text \<open>A descriptor holding the three numeric fields, and one holding a cookie only.\<close>

definition keyElement :: "long \<Rightarrow> long \<Rightarrow> long \<Rightarrow> CFDictionary" where
  "keyElement cookie usage usagePage =
     (\<lambda>k. if k = kIOHIDElementCookieKey then Some (CFNumber cookie True)
          else if k = kIOHIDElementUsageKey then Some (CFNumber usage True)
          else if k = kIOHIDElementUsagePageKey then Some (CFNumber usagePage True)
          else None)"

definition cookieOnlyElement :: CFDictionary where
  "cookieOnlyElement =
     (\<lambda>k. if k = kIOHIDElementCookieKey then Some (CFNumber 9 True) else None)"

text \<open>
  A driver on which every call succeeds: device \<open>0x1503\<close>, plug-in \<open>1\<close>, device
  interface \<open>2\<close>, queue \<open>3\<close>, no registry properties, the given element descriptors,
  every element at rest, and the given answers of the queue.
\<close>

definition sampleDriver ::
  "CFDictionary list \<Rightarrow> (nat \<Rightarrow> IOReturn \<times> IOHIDEventStruct) \<Rightarrow> Driver" where
  "sampleDriver elements answers =
     \<lparr>serviceMatchingDict = True, usagePageRefCreated = True, usageRefCreated = True,
      matchingService = 0x1503, createPlugIn = (kIOReturnSuccess, 1),
      registryProperty = (\<lambda>k. None), queryInterface = (S_OK, 2),
      deviceOpen = kIOReturnSuccess, copyMatchingElements = (kIOReturnSuccess, Array elements),
      getElementValue = (\<lambda>c. (kIOReturnSuccess, 0)), allocQueue = 3,
      queueCreate = kIOReturnSuccess, queueStart = kIOReturnSuccess,
      addElement = (\<lambda>c. kIOReturnSuccess), getNextEvent = answers\<rparr>"

definition keyPress :: "IOHIDElementCookie \<Rightarrow> IOHIDEventStruct" where
  "keyPress c = \<lparr>eventType = kIOHIDElementTypeInput_Button, elementCookie = c, eventValue = 1\<rparr>"

definition emptyQueue :: "nat \<Rightarrow> IOReturn \<times> IOHIDEventStruct" where
  "emptyQueue i = (kIOReturnUnderrun, keyPress 0)"

text \<open>Two events, then a failure that is not \<open>kIOReturnUnderrun\<close>.\<close>

definition failingQueue :: "nat \<Rightarrow> IOReturn \<times> IOHIDEventStruct" where
  "failingQueue i = (if i < 2 then (kIOReturnSuccess, keyPress 104) else (kIOReturnError, keyPress 0))"

text \<open>
  The descriptors of the keys \<open>A\<close> to \<open>Slash\<close> (usage codes \<open>4\<close> to \<open>56\<close>), the key of
  usage code \<open>u\<close> having the cookie \<open>100 + u\<close>.
\<close>

definition fullKeyboardElements :: "CFDictionary list" where
  "fullKeyboardElements =
     map (\<lambda>u. keyElement (100 + of_nat u) (of_nat u) kHIDPage_KeyboardOrKeypad) [4..<57]"

definition noKeyboardDriver :: Driver where
  "noKeyboardDriver = (sampleDriver [] emptyQueue)\<lparr>matchingService := 0\<rparr>"

text \<open>A helper that holds all four driver resources.\<close>

definition queuedHelper :: Helper where
  "queuedHelper =
     \<lparr>m_pimpl = Some \<lparr>m_hidDevice = 0x1503, m_hidDeviceInterface = 2,
                       m_plugInInterface = 1, m_hidQueue = 3\<rparr>,
      m_keys = keyTable, m_errorLoggerFunctor = True, m_deviceInformationProperties = [],
      m_queueEnabled = True, driverCalls = [], logged = []\<rparr>"

text \<open>
  The calls that give a resource back, and two orders on them: the order of the
  specification (queue, device interface, plug-in, device) and the order of the
  statements of \<open>~PrivateImpl\<close> (device interface, plug-in, queue, device). A call list
  follows an order when the ranks of its release calls strictly increase.
\<close>

fun isRelease :: "DriverCall \<Rightarrow> bool" where
  "isRelease (DeviceClose i) = True"
| "isRelease (DeviceRelease i) = True"
| "isRelease (IODestroyPlugInInterface p) = True"
| "isRelease (QueueRelease q) = True"
| "isRelease (IOObjectRelease d) = True"
| "isRelease _ = False"





text \<open>What a stage keeps: the release calls made so far and the queue handle.\<close>

definition kept :: "Helper \<Rightarrow> Helper \<Rightarrow> bool" where
  "kept s s' \<longleftrightarrow>
     filter isRelease (driverCalls s') = filter isRelease (driverCalls s)
   \<and> map_option m_hidQueue (m_pimpl s') = map_option m_hidQueue (m_pimpl s)"

text \<open>
  The helper as it stands when \<open>FindKeypressCookies\<close> is entered on the sample
  driver: device, plug-in and device interface acquired, the table populated.
\<close>

definition scanningHelper :: Helper where
  "scanningHelper =
     \<lparr>m_pimpl = Some \<lparr>m_hidDevice = 0x1503, m_hidDeviceInterface = 2,
                       m_plugInInterface = 1, m_hidQueue = 0\<rparr>,
      m_keys = keyTable, m_errorLoggerFunctor = True, m_deviceInformationProperties = [],
      m_queueEnabled = True,
      driverCalls =
        [IOServiceMatching, IOServiceGetMatchingService,
         IOCreatePlugInInterfaceForService 0x1503,
         IORegistryEntryCreateCFProperty 0x1503 ''Transport'',
         IORegistryEntryCreateCFProperty 0x1503 ''VendorID'',
         IORegistryEntryCreateCFProperty 0x1503 ''VendorIDSource'',
         IORegistryEntryCreateCFProperty 0x1503 ''ProductID'',
         IORegistryEntryCreateCFProperty 0x1503 ''VersionNumber'',
         IORegistryEntryCreateCFProperty 0x1503 ''Manufacturer'',
         IORegistryEntryCreateCFProperty 0x1503 ''Product'',
         IORegistryEntryCreateCFProperty 0x1503 ''SerialNumber'',
         IORegistryEntryCreateCFProperty 0x1503 ''CountryCode'',
         IORegistryEntryCreateCFProperty 0x1503 ''LocationID'',
         QueryInterface 1, DeviceOpen 2],
      logged = []\<rparr>"


text \<open>The helper the constructor returns on \<open>noKeyboardDriver\<close>, with queue and logger asked for.\<close>

definition noKeyboardHelper :: Helper where
  "noKeyboardHelper =
     \<lparr>m_pimpl = None, m_keys = [], m_errorLoggerFunctor = True,
      m_deviceInformationProperties = [], m_queueEnabled = True,
      driverCalls = [IOServiceMatching, IOServiceGetMatchingService],
      logged = [''Failed basic keyboard initialization.'']\<rparr>"


text \<open>\<open>scanningHelper\<close> after the descriptor of the key \<open>A\<close> with cookie 104 was scanned.\<close>

definition keyABoundHelper :: Helper where
  "keyABoundHelper =
     scanningHelper\<lparr>m_keys := keyTable[4 := (keyTable ! 4)\<lparr>macCookieValue := 104\<rparr>]\<rparr>"

text \<open>The construction of a helper, queue and logger asked for, on the full sample keyboard.\<close>

definition fullKeyboardSession :: "crash + Helper" where
  "fullKeyboardSession =
     HelperForKeyboardReaderIOKit releaseBuild (sampleDriver fullKeyboardElements emptyQueue)
       True True"



text \<open>
  A driver whose \<open>copyMatchingElements\<close> fails, leaving the given value in the local
  \<open>elements\<close> of the caller.
\<close>

definition failingElementsDriver :: "CFArrayRef \<Rightarrow> Driver" where
  "failingElementsDriver left =
     (sampleDriver [] emptyQueue)\<lparr>copyMatchingElements := (kIOReturnError, left)\<rparr>"

section \<open>Properties\<close>

subsection \<open>Auxiliary facts\<close>

lemma countLocated_filter:
  "countLocated ks n = n + int (resolvedNonIgnored ks)"
  by (induction ks arbitrary: n) (simp_all add: resolvedNonIgnored_def)

lemma forEach_append:
  "forEach body (xs @ ys) a =
     (case forEach body xs a of Inl c \<Rightarrow> Inl c | Inr a' \<Rightarrow> forEach body ys a')"
  by (induction xs arbitrary: a) (simp_all split: sum.splits)

lemma forEach_invariant:
  assumes step: "\<And>x a a'. body x a = Inr a' \<Longrightarrow> P a \<Longrightarrow> P a'"
    and run: "forEach body xs a = Inr a'" and init: "P a"
  shows "P a'"
  using run init
proof (induction xs arbitrary: a)
  case Nil
  then show ?case by simp
next
  case (Cons x xs)
  then show ?case by (auto split: sum.splits dest: step)
qed

lemma forEach_total:
  assumes "\<And>x a. \<exists>a'. body x a = Inr a'"
  shows "\<exists>a'. forEach body xs a = Inr a'"
proof (induction xs arbitrary: a)
  case Nil
  show ?case by simp
next
  case (Cons x xs)
  from assms obtain a1 where "body x a = Inr a1" by blast
  with Cons show ?case by simp
qed

lemma LogError_frame [simp]:
  "m_keys (LogErrorWhenFunctorIsntEmpty m s) = m_keys s"
  "m_pimpl (LogErrorWhenFunctorIsntEmpty m s) = m_pimpl s"
  "driverCalls (LogErrorWhenFunctorIsntEmpty m s) = driverCalls s"
  "m_errorLoggerFunctor (LogErrorWhenFunctorIsntEmpty m s) = m_errorLoggerFunctor s"
  "m_queueEnabled (LogErrorWhenFunctorIsntEmpty m s) = m_queueEnabled s"
  "m_deviceInformationProperties (LogErrorWhenFunctorIsntEmpty m s) = m_deviceInformationProperties s"
  by (simp_all add: LogErrorWhenFunctorIsntEmpty_def)

lemma driverCall_frame [simp]:
  "m_keys (driverCall c s) = m_keys s"
  "m_pimpl (driverCall c s) = m_pimpl s"
  "logged (driverCall c s) = logged s"
  "driverCalls (driverCall c s) = driverCalls s @ [c]"
  "m_errorLoggerFunctor (driverCall c s) = m_errorLoggerFunctor s"
  "m_queueEnabled (driverCall c s) = m_queueEnabled s"
  "m_deviceInformationProperties (driverCall c s) = m_deviceInformationProperties s"
  by (simp_all add: driverCall_def)

lemma scanElement_release_total:
  "\<not> assertsEnabled b \<Longrightarrow> \<exists>s'. scanElement b e s = Inr s'"
  by (simp add: scanElement_def Let_def split: option.splits)

lemma scanElement_frame:
  assumes "scanElement b e s = Inr s'"
  shows "m_pimpl s' = m_pimpl s \<and> driverCalls s' = driverCalls s
       \<and> m_errorLoggerFunctor s' = m_errorLoggerFunctor s
       \<and> length (m_keys s') = length (m_keys s)"
  using assms
  by (auto simp: scanElement_def Let_def split: option.splits if_splits)


lemma scanElement_ignore_flag:
  assumes "scanElement b e s = Inr s'"
  shows "mustBeIgnoredByOurApplication (m_keys s' ! i) = mustBeIgnoredByOurApplication (m_keys s ! i)"
  using assms
  by (auto simp: scanElement_def Let_def nth_list_update split: option.splits if_splits)

lemma scanElement_queueEnabled:
  "scanElement b e s = Inr s' \<Longrightarrow> m_queueEnabled s' = m_queueEnabled s"
  by (auto simp: scanElement_def Let_def split: option.splits if_splits)


lemma scan_frame:
  assumes "forEach (scanElement b) es s = Inr s'"
  shows "m_pimpl s' = m_pimpl s \<and> driverCalls s' = driverCalls s
       \<and> m_errorLoggerFunctor s' = m_errorLoggerFunctor s
       \<and> length (m_keys s') = length (m_keys s)"
  by (rule forEach_invariant [where body = "scanElement b"
        and P = "\<lambda>t. m_pimpl t = m_pimpl s \<and> driverCalls t = driverCalls s
       \<and> m_errorLoggerFunctor t = m_errorLoggerFunctor s
       \<and> length (m_keys t) = length (m_keys s)", OF _ assms])
     (auto dest: scanElement_frame)

lemma scan_ignore_flag:
  assumes "forEach (scanElement b) es s = Inr s'"
  shows "mustBeIgnoredByOurApplication (m_keys s' ! i) = mustBeIgnoredByOurApplication (m_keys s ! i)"
  by (rule forEach_invariant [where body = "scanElement b"
        and P = "\<lambda>t. mustBeIgnoredByOurApplication (m_keys t ! i) = mustBeIgnoredByOurApplication (m_keys s ! i)",
        OF _ assms])
     (auto dest: scanElement_ignore_flag)

lemma scan_queueEnabled:
  assumes "forEach (scanElement b) es s = Inr s'"
  shows "m_queueEnabled s' = m_queueEnabled s"
  by (rule forEach_invariant [where body = "scanElement b"
        and P = "\<lambda>t. m_queueEnabled t = m_queueEnabled s", OF _ assms])
     (auto dest: scanElement_queueEnabled)

lemma scan_release_total:
  "\<not> assertsEnabled b \<Longrightarrow> \<exists>s'. forEach (scanElement b) es s = Inr s'"
  by (rule forEach_total) (rule scanElement_release_total)

text \<open>Only a keyboard-page descriptor with usage code 0 can write slot 0.\<close>

lemma nat_sint_positive: "(u :: long) \<noteq> 0 \<Longrightarrow> \<not> sint u < 0 \<Longrightarrow> nat (sint u) \<noteq> 0"
  using signed_eq_0_iff [of u] by simp

lemma scanElement_other_usage:
  assumes "scanElement b e s = Inr s'"
    and "readLong (e kIOHIDElementUsageKey) = Some 0 \<longrightarrow>
           readLong (e kIOHIDElementUsagePageKey) \<noteq> Some kHIDPage_KeyboardOrKeypad"
  shows "m_keys s' ! 0 = m_keys s ! 0"
  using assms nat_sint_positive
  by (auto simp: scanElement_def Let_def split: option.splits if_splits)

lemma scan_other_usages:
  assumes "forEach (scanElement b) es s = Inr s'"
    and "\<forall>e\<in>set es. readLong (e kIOHIDElementUsageKey) = Some 0 \<longrightarrow>
           readLong (e kIOHIDElementUsagePageKey) \<noteq> Some kHIDPage_KeyboardOrKeypad"
  shows "m_keys s' ! 0 = m_keys s ! 0"
  using assms
proof (induction es arbitrary: s)
  case Nil
  then show ?case by simp
next
  case (Cons e es)
  from Cons.prems(1) obtain s1 where step: "scanElement b e s = Inr s1"
    and rest: "forEach (scanElement b) es s1 = Inr s'"
    by (auto split: sum.splits)
  from scanElement_other_usage [OF step] Cons.prems(2) have "m_keys s1 ! 0 = m_keys s ! 0"
    by simp
  moreover from Cons.IH [OF rest] Cons.prems(2) have "m_keys s' ! 0 = m_keys s1 ! 0"
    by simp
  ultimately show ?case by simp
qed

text \<open>What a returning \<open>FindKeypressCookies\<close> has done.\<close>

lemma FindKeypressCookies_Inr:
  assumes "FindKeypressCookies b d s = Inr (r, s')"
  shows "\<exists>p. m_pimpl s = Some p \<and> m_hidDeviceInterface p \<noteq> 0
           \<and> r = (40 < countLocated (m_keys s') 0)
           \<and> ((fst (copyMatchingElements d) \<noteq> kIOReturnSuccess
                \<and> s' = LogErrorWhenFunctorIsntEmpty
                         (''copyMatchingElements failed. code: '' @
                            formatInt (sint (fst (copyMatchingElements d))))
                         (driverCall (CopyMatchingElements (m_hidDeviceInterface p)) s))
              \<or> (\<exists>es. copyMatchingElements d = (kIOReturnSuccess, Array es)
                    \<and> forEach (scanElement b) es
                         (driverCall (CopyMatchingElements (m_hidDeviceInterface p)) s) = Inr s'))"
  using assms
  by (auto simp: FindKeypressCookies_def Let_def
           split: option.splits if_splits prod.splits sum.splits CFArrayRef.splits)

lemma FindKeypressCookies_frame:
  assumes "FindKeypressCookies b d s = Inr (r, s')"
  shows "m_pimpl s' = m_pimpl s \<and> m_queueEnabled s' = m_queueEnabled s
       \<and> length (m_keys s') = length (m_keys s)
       \<and> filter isRelease (driverCalls s') = filter isRelease (driverCalls s)
       \<and> mustBeIgnoredByOurApplication (m_keys s' ! i) = mustBeIgnoredByOurApplication (m_keys s ! i)"
  using FindKeypressCookies_Inr [OF assms]
  by (auto dest: scan_frame scan_queueEnabled scan_ignore_flag [where i = i])

lemma FindKeypressCookies_scan:
  assumes "m_pimpl s = Some p" and "m_hidDeviceInterface p \<noteq> 0"
    and "copyMatchingElements d = (kIOReturnSuccess, Array es)"
  shows "FindKeypressCookies b d s =
           (case forEach (scanElement b) es
                   (driverCall (CopyMatchingElements (m_hidDeviceInterface p)) s) of
              Inl c \<Rightarrow> Inl c
            | Inr s2 \<Rightarrow> Inr (40 < countLocated (m_keys s2) 0, s2))"
  using assms by (simp add: FindKeypressCookies_def Let_def split: sum.splits)

lemma resolvedNonIgnored_Cons:
  "resolvedNonIgnored (k # ks) =
     (if macCookieValue k \<noteq> 0 \<and> \<not> mustBeIgnoredByOurApplication k then 1 else 0)
     + resolvedNonIgnored ks"
  by (simp add: resolvedNonIgnored_def)

lemma resolvedNonIgnored_unbound:
  "\<forall>k\<in>set ks. macCookieValue k = 0 \<Longrightarrow> resolvedNonIgnored ks = 0"
  by (simp add: resolvedNonIgnored_def)

lemma resolvedNonIgnored_bind:
  assumes "i < length ks" and "macCookieValue (ks ! i) = 0"
    and "\<not> mustBeIgnoredByOurApplication (ks ! i)" and "c \<noteq> 0"
  shows "resolvedNonIgnored (ks[i := (ks ! i)\<lparr>macCookieValue := c\<rparr>]) = Suc (resolvedNonIgnored ks)"
  using assms
proof (induction ks arbitrary: i)
  case Nil
  then show ?case by simp
next
  case (Cons k ks)
  then show ?case
    by (cases i) (simp_all add: resolvedNonIgnored_def)
qed

subsection \<open>Facts about the key table\<close>

lemma foldl_pushRow:
  "foldl pushRow ks rows =
     ks @ map (\<lambda>row. PerKeyData_ctor (fst row) (fst (snd row)) 0 (snd (snd row))) rows"
  by (induction rows arbitrary: ks) (simp_all add: pushRow_def PushOneItem_def split: prod.splits)

lemma length_keyTableRows: "length keyTableRows = 165"
  by (simp add: keyTableRows_def)

lemma length_keyTable: "length keyTable = 165"
  by (simp add: keyTable_def foldl_pushRow length_keyTableRows)

lemma keyTableRows_0: "keyTableRows ! 0 = (''BOGUS PLACEHOLDER AT INDEX ZERO'', 0, False)"
  by (simp add: keyTableRows_def)

lemma keyTable_0:
  "keyTable ! 0 = PerKeyData_ctor ''BOGUS PLACEHOLDER AT INDEX ZERO'' 0 0 False"
  by (simp add: keyTable_def foldl_pushRow length_keyTableRows keyTableRows_0)

lemma keyTable_unbound: "i < length keyTable \<Longrightarrow> macCookieValue (keyTable ! i) = 0"
  by (simp add: keyTable_def foldl_pushRow PerKeyData_ctor_def)

lemma Populate_fresh:
  "m_keys s = [] \<Longrightarrow> PopulateVectorOfKeyInfo b s = Inr (True, s\<lparr>m_keys := keyTable\<rparr>)"
  by (simp add: PopulateVectorOfKeyInfo_def keyTable_def)

lemma Populate_True:
  "PopulateVectorOfKeyInfo b s = Inr (True, s') \<Longrightarrow> s' = s\<lparr>m_keys := keyTable\<rparr> \<and> m_keys s = []"
  by (auto simp: PopulateVectorOfKeyInfo_def keyTable_def split: if_splits)

lemma keyTable_all_unbound: "\<forall>k\<in>set keyTable. macCookieValue k = 0"
  by (auto simp: keyTable_def foldl_pushRow PerKeyData_ctor_def)

lemma resolvedNonIgnored_keyTable: "resolvedNonIgnored keyTable = 0"
  by (rule resolvedNonIgnored_unbound [OF keyTable_all_unbound])

lemma keyTable_not_empty: "keyTable \<noteq> []"
  using length_keyTable by auto

lemma keyTableRows_4: "keyTableRows ! 4 = (''kHIDUsage_KeyboardA'', 4, False)"
  by (simp add: keyTableRows_def)

lemma keyTable_4: "keyTable ! 4 = PerKeyData_ctor ''kHIDUsage_KeyboardA'' 4 0 False"
  by (simp add: keyTable_def foldl_pushRow length_keyTableRows keyTableRows_4)

lemma rows_4_to_56: "list_all (\<lambda>r. \<not> snd (snd r)) (take 53 (drop 4 keyTableRows))"
  by (simp add: keyTableRows_def)

lemma keyTable_nth:
  "i < 165 \<Longrightarrow> keyTable ! i =
     PerKeyData_ctor (fst (keyTableRows ! i)) (fst (snd (keyTableRows ! i))) 0 (snd (snd (keyTableRows ! i)))"
  by (simp add: keyTable_def foldl_pushRow length_keyTableRows)

lemma keyTable_4_to_56:
  assumes "4 \<le> u" "u < 57"
  shows "\<not> mustBeIgnoredByOurApplication (keyTable ! u)"
proof -
  from rows_4_to_56 have "\<forall>i<53. \<not> snd (snd (take 53 (drop 4 keyTableRows) ! i))"
    by (simp add: list_all_length length_keyTableRows)
  then have "\<not> snd (snd (take 53 (drop 4 keyTableRows) ! (u - 4)))"
    using assms by simp
  moreover have "take 53 (drop 4 keyTableRows) ! (u - 4) = keyTableRows ! u"
    using assms by (simp add: length_keyTableRows)
  ultimately show ?thesis
    using assms by (simp add: keyTable_nth PerKeyData_ctor_def)
qed

subsection \<open>Facts about the sample inputs\<close>

lemma keyElement_fields:
  "readLong (keyElement c u pg kIOHIDElementCookieKey) = Some c"
  "readLong (keyElement c u pg kIOHIDElementUsageKey) = Some u"
  "readLong (keyElement c u pg kIOHIDElementUsagePageKey) = Some pg"
  by (simp_all add: keyElement_def readLong_def kIOHIDElementCookieKey_def
        kIOHIDElementUsageKey_def kIOHIDElementUsagePageKey_def)

lemma cookieOnlyElement_fields:
  "readLong (cookieOnlyElement kIOHIDElementCookieKey) = Some 9"
  "readLong (cookieOnlyElement kIOHIDElementUsageKey) = None"
  "readLong (cookieOnlyElement kIOHIDElementUsagePageKey) = None"
  by (simp_all add: cookieOnlyElement_def readLong_def kIOHIDElementCookieKey_def
        kIOHIDElementUsageKey_def kIOHIDElementUsagePageKey_def)

lemma scanningHelper_fields:
  "m_keys scanningHelper = keyTable"
  "m_errorLoggerFunctor scanningHelper"
  "logged scanningHelper = []"
  "m_pimpl scanningHelper = Some \<lparr>m_hidDevice = 0x1503, m_hidDeviceInterface = 2,
                       m_plugInInterface = 1, m_hidQueue = 0\<rparr>"
  by (simp_all add: scanningHelper_def)

lemma scan_A:
  "scanElement releaseBuild (keyElement 104 4 kHIDPage_KeyboardOrKeypad) scanningHelper
     = Inr (scanningHelper\<lparr>m_keys := keyTable[4 := (keyTable ! 4)\<lparr>macCookieValue := 104\<rparr>]\<rparr>)"
  by (simp add: scanElement_def keyElement_fields scanningHelper_fields length_keyTable
        keyTable_unbound Let_def)

lemma keyABoundHelper_fields:
  "m_keys keyABoundHelper = keyTable[4 := (keyTable ! 4)\<lparr>macCookieValue := 104\<rparr>]"
  "logged keyABoundHelper = []"
  "m_errorLoggerFunctor keyABoundHelper"
  by (simp_all add: keyABoundHelper_def scanningHelper_def)

lemma resolved_keyABound: "resolvedNonIgnored (m_keys keyABoundHelper) = 1"
  using resolvedNonIgnored_bind [of 4 keyTable 104]
  by (simp add: keyABoundHelper_fields length_keyTable keyTable_unbound keyTable_4
        PerKeyData_ctor_def resolvedNonIgnored_keyTable)

lemma releaseBuild_fields [simp]:
  "assertsEnabled releaseBuild = False" "debugChecks releaseBuild = False"
  by (simp_all add: releaseBuild_def)

lemma formatInt_kIOReturnError: "formatInt (sint kIOReturnError) = ''-536870212''"
  by code_simp

lemma kIOReturnError_not_success: "kIOReturnError \<noteq> 0"
  by (simp add: kIOReturnError_def)

lemma sint_of_nat_long: "u < 2 ^ 63 \<Longrightarrow> sint (of_nat u :: long) = int u"
  by (simp add: signed_of_nat signed_take_bit_int_eq_self)

lemma cookie_of_nat: "0 < n \<Longrightarrow> n < 2 ^ 32 \<Longrightarrow> (ucast (of_nat n :: long) :: IOHIDElementCookie) \<noteq> 0"
proof -
  assume a: "0 < n" "n < 2 ^ 32"
  then have "n < 2 ^ 64" by (simp add: order_less_trans [where y = "2 ^ 32"])
  then have "(ucast (of_nat n :: long) :: IOHIDElementCookie) = of_nat n"
    by (simp add: unsigned_of_nat take_bit_nat_eq_self)
  with of_nat_neq_0 [where 'a = 32, of n] a show ?thesis by simp
qed

lemma sampleDriver_fields:
  "copyMatchingElements (sampleDriver es q) = (kIOReturnSuccess, Array es)"
  "getElementValue (sampleDriver es q) = (\<lambda>c. (kIOReturnSuccess, 0))"
  "allocQueue (sampleDriver es q) = 3"
  "queueCreate (sampleDriver es q) = kIOReturnSuccess"
  "queueStart (sampleDriver es q) = kIOReturnSuccess"
  "matchingService (sampleDriver es q) = 0x1503"
  "queryInterface (sampleDriver es q) = (S_OK, 2)"
  "createPlugIn (sampleDriver es q) = (kIOReturnSuccess, 1)"
  by (simp_all add: sampleDriver_def)

lemma sample_resolution:
  "FindKeypressCookies b (sampleDriver es q) scanningHelper =
     (case forEach (scanElement b) es (driverCall (CopyMatchingElements 2) scanningHelper) of
        Inl c \<Rightarrow> Inl c
      | Inr s2 \<Rightarrow> Inr (40 < resolvedNonIgnored (m_keys s2), s2))"
  using FindKeypressCookies_scan [where s = scanningHelper and d = "sampleDriver es q" and b = b
          and es = es, OF scanningHelper_fields(4) _ sampleDriver_fields(1)]
  by (auto simp: countLocated_filter split: sum.splits)

lemma scan_key_A_after_call:
  "scanElement releaseBuild (keyElement 104 4 kHIDPage_KeyboardOrKeypad)
     (driverCall (CopyMatchingElements 2) scanningHelper)
     = Inr (driverCall (CopyMatchingElements 2) keyABoundHelper)"
  by (simp add: scanElement_def keyElement_fields scanningHelper_fields length_keyTable
        keyTable_unbound Let_def keyABoundHelper_def driverCall_def scanningHelper_def)

lemma keyA_resolution:
  "FindKeypressCookies releaseBuild
       (sampleDriver [keyElement 104 4 kHIDPage_KeyboardOrKeypad] emptyQueue) scanningHelper
     = Inr (False, driverCall (CopyMatchingElements 2) keyABoundHelper)"
  by (simp add: sample_resolution scan_key_A_after_call resolved_keyABound)

lemma scan_fresh_keys:
  assumes "distinct us"
    and "\<forall>u\<in>set us. u < length (m_keys s) \<and> macCookieValue (m_keys s ! u) = 0
            \<and> \<not> mustBeIgnoredByOurApplication (m_keys s ! u)
            \<and> sint (of_nat u :: long) = int u
            \<and> (ucast (c u) :: IOHIDElementCookie) \<noteq> 0"
  shows "\<exists>s'. forEach (scanElement b)
                 (map (\<lambda>u. keyElement (c u) (of_nat u) kHIDPage_KeyboardOrKeypad) us) s = Inr s'
            \<and> resolvedNonIgnored (m_keys s') = resolvedNonIgnored (m_keys s) + length us"
  using assms
proof (induction us arbitrary: s)
  case Nil
  then show ?case by simp
next
  case (Cons u us)
  let ?s1 = "s\<lparr>m_keys := (m_keys s)[u := (m_keys s ! u)\<lparr>macCookieValue := ucast (c u)\<rparr>]\<rparr>"
  from Cons.prems(2) have u: "u < length (m_keys s)" "macCookieValue (m_keys s ! u) = 0"
    "\<not> mustBeIgnoredByOurApplication (m_keys s ! u)" "sint (of_nat u :: long) = int u"
    "(ucast (c u) :: IOHIDElementCookie) \<noteq> 0"
    by simp_all
  have step: "scanElement b (keyElement (c u) (of_nat u) kHIDPage_KeyboardOrKeypad) s = Inr ?s1"
    using u by (simp add: scanElement_def keyElement_fields Let_def)
  have count1: "resolvedNonIgnored (m_keys ?s1) = Suc (resolvedNonIgnored (m_keys s))"
    using resolvedNonIgnored_bind [OF u(1,2,3,5)] by simp
  have rest: "\<forall>v\<in>set us. v < length (m_keys ?s1) \<and> macCookieValue (m_keys ?s1 ! v) = 0
            \<and> \<not> mustBeIgnoredByOurApplication (m_keys ?s1 ! v)
            \<and> sint (of_nat v :: long) = int v
            \<and> (ucast (c v) :: IOHIDElementCookie) \<noteq> 0"
  proof
    fix v assume v: "v \<in> set us"
    with Cons.prems(1) have "v \<noteq> u" by auto
    then have "m_keys ?s1 ! v = m_keys s ! v" by simp
    with Cons.prems(2) v show "v < length (m_keys ?s1) \<and> macCookieValue (m_keys ?s1 ! v) = 0
            \<and> \<not> mustBeIgnoredByOurApplication (m_keys ?s1 ! v)
            \<and> sint (of_nat v :: long) = int v
            \<and> (ucast (c v) :: IOHIDElementCookie) \<noteq> 0"
      by simp
  qed
  from Cons.prems(1) have "distinct us" by simp
  from Cons.IH [OF this rest] obtain s' where
    "forEach (scanElement b)
        (map (\<lambda>u. keyElement (c u) (of_nat u) kHIDPage_KeyboardOrKeypad) us) ?s1 = Inr s'"
    and "resolvedNonIgnored (m_keys s') = resolvedNonIgnored (m_keys ?s1) + length us"
    by blast
  with step count1 show ?case by simp
qed

text \<open>
  Scanning the descriptors of the full sample keyboard binds its 53 keys, whatever the
  table holds outside the slots 4 to 56, and leaves slot 0 as it is.
\<close>

lemma fullKeyboard_scan_from:
  assumes len: "length (m_keys s) = 165"
    and fresh: "\<forall>u. 4 \<le> u \<and> u < 57 \<longrightarrow> macCookieValue (m_keys s ! u) = 0
                  \<and> \<not> mustBeIgnoredByOurApplication (m_keys s ! u)"
  shows "\<exists>s'. forEach (scanElement b) fullKeyboardElements s = Inr s'
           \<and> resolvedNonIgnored (m_keys s') = resolvedNonIgnored (m_keys s) + 53
           \<and> m_keys s' ! 0 = m_keys s ! 0"
proof -
  have all: "\<forall>u\<in>set [4..<57]. u < length (m_keys s) \<and> macCookieValue (m_keys s ! u) = 0
            \<and> \<not> mustBeIgnoredByOurApplication (m_keys s ! u)
            \<and> sint (of_nat u :: long) = int u
            \<and> (ucast (100 + of_nat u :: long) :: IOHIDElementCookie) \<noteq> 0"
  proof
    fix u assume "u \<in> set [4..<57]"
    then have u: "4 \<le> u" "u < 57" by (simp_all only: set_upt atLeastLessThan_iff)
    have "(100 + of_nat u :: long) = of_nat (100 + u)" by simp
    moreover have "(ucast (of_nat (100 + u) :: long) :: IOHIDElementCookie) \<noteq> 0"
      using u by (intro cookie_of_nat) simp_all
    ultimately have c: "(ucast (100 + of_nat u :: long) :: IOHIDElementCookie) \<noteq> 0" by simp
    have "sint (of_nat u :: long) = int u"
      using u by (intro sint_of_nat_long) simp
    with u c len fresh show "u < length (m_keys s) \<and> macCookieValue (m_keys s ! u) = 0
            \<and> \<not> mustBeIgnoredByOurApplication (m_keys s ! u)
            \<and> sint (of_nat u :: long) = int u
            \<and> (ucast (100 + of_nat u :: long) :: IOHIDElementCookie) \<noteq> 0"
      by simp
  qed
  from scan_fresh_keys [where c = "\<lambda>u. 100 + of_nat u" and b = b, OF distinct_upt all]
  obtain s' where run: "forEach (scanElement b) fullKeyboardElements s = Inr s'"
    and count: "resolvedNonIgnored (m_keys s') = resolvedNonIgnored (m_keys s) + 53"
    by (auto simp: fullKeyboardElements_def simp del: upt_rec_numeral)
  have "\<forall>e\<in>set fullKeyboardElements. readLong (e kIOHIDElementUsageKey) = Some 0 \<longrightarrow>
           readLong (e kIOHIDElementUsagePageKey) \<noteq> Some kHIDPage_KeyboardOrKeypad"
  proof
    fix e assume "e \<in> set fullKeyboardElements"
    then obtain u where e: "e = keyElement (100 + of_nat u) (of_nat u) kHIDPage_KeyboardOrKeypad"
      and "u \<in> set [4..<57]"
      unfolding fullKeyboardElements_def by (auto simp del: upt_rec_numeral)
    then have u: "4 \<le> u" "u < 57" by (simp_all only: set_upt atLeastLessThan_iff)
    have "sint (of_nat u :: long) = int u"
      using u by (intro sint_of_nat_long) simp
    with u have "(of_nat u :: long) \<noteq> 0" by auto
    with e show "readLong (e kIOHIDElementUsageKey) = Some 0 \<longrightarrow>
           readLong (e kIOHIDElementUsagePageKey) \<noteq> Some kHIDPage_KeyboardOrKeypad"
      by (simp add: keyElement_fields)
  qed
  from scan_other_usages [OF run this] run count show ?thesis by blast
qed

lemma fullKeyboard_scan:
  "\<exists>s'. forEach (scanElement releaseBuild) fullKeyboardElements
            (driverCall (CopyMatchingElements 2) scanningHelper) = Inr s'
        \<and> resolvedNonIgnored (m_keys s') = 53
        \<and> macCookieValue (m_keys s' ! 0) = 0"
  using fullKeyboard_scan_from [of "driverCall (CopyMatchingElements 2) scanningHelper" releaseBuild]
  by (auto simp: scanningHelper_fields length_keyTable keyTable_unbound keyTable_4_to_56
        resolvedNonIgnored_keyTable)

subsection \<open>The key table\<close>

text \<open>
  C2, as the code has it: every table that \<open>PopulateVectorOfKeyInfo\<close> populates has 165
  entries, the placeholder at index 0 and the usage codes \<open>0x01\<close> to \<open>0xA4\<close>;
  \<open>250\<close> is only the capacity reserved for the vector.
\<close>

theorem populated_table_has_165_entries:
  "PopulateVectorOfKeyInfo b s = Inr (True, s') \<Longrightarrow> length (m_keys s') = 165"
  by (auto dest!: Populate_True simp: length_keyTable)

theorem populated_table_has_165_entries_witness:
  "PopulateVectorOfKeyInfo releaseBuild (newHelper False False)
     = Inr (True, (newHelper False False)\<lparr>m_keys := keyTable\<rparr>)
   \<and> length (m_keys ((newHelper False False)\<lparr>m_keys := keyTable\<rparr>)) = 165"
proof -
  have h: "PopulateVectorOfKeyInfo releaseBuild (newHelper False False)
     = Inr (True, (newHelper False False)\<lparr>m_keys := keyTable\<rparr>)"
    by (simp add: Populate_fresh newHelper_def)
  from populated_table_has_165_entries [OF h] h show ?thesis by simp
qed

text \<open>C2 as stated fails: the table populated for a new helper does not have 250 entries.\<close>

theorem populated_table_size_is_not_250:
  "PopulateVectorOfKeyInfo releaseBuild (newHelper False False)
     = Inr (True, (newHelper False False)\<lparr>m_keys := keyTable\<rparr>)
   \<and> length (m_keys ((newHelper False False)\<lparr>m_keys := keyTable\<rparr>)) \<noteq> 250"
  by (simp add: Populate_fresh newHelper_def length_keyTable)

subsection \<open>Element resolution\<close>

text \<open>
  C1: whenever \<open>FindKeypressCookies\<close> returns, it returns true if and only if more than
  40 entries of the key table have a bound handle and are not marked ignored. It does
  return in a build without assertions, on a helper that holds a device interface, when
  the driver either succeeds and hands over an array, or fails and has stored an array
  or the null reference through the out-parameter. When the driver leaves the local
  \<open>elements\<close> as it was, the final \<open>if(elements)\<close> reads an indeterminate value, and no
  return value is defined.
\<close>

theorem FindKeypressCookies_success_iff_more_than_40:
  "(\<forall>r s'. FindKeypressCookies b d s = Inr (r, s') \<longrightarrow>
        (r \<longleftrightarrow> 40 < resolvedNonIgnored (m_keys s')))
   \<and> (\<not> assertsEnabled b \<and> m_pimpl s = Some p \<and> m_hidDeviceInterface p \<noteq> 0
        \<and> ((\<exists>es. copyMatchingElements d = (kIOReturnSuccess, Array es))
           \<or> (fst (copyMatchingElements d) \<noteq> kIOReturnSuccess
               \<and> snd (copyMatchingElements d) \<noteq> Indeterminate)) \<longrightarrow>
        (\<exists>r s'. FindKeypressCookies b d s = Inr (r, s')))
   \<and> (snd (copyMatchingElements d) = Indeterminate \<longrightarrow>
        (\<forall>r s'. FindKeypressCookies b d s \<noteq> Inr (r, s')))"
proof (intro conjI allI impI)
  fix r s'
  assume "FindKeypressCookies b d s = Inr (r, s')"
  from FindKeypressCookies_Inr [OF this]
  show "r \<longleftrightarrow> 40 < resolvedNonIgnored (m_keys s')"
    by (auto simp: countLocated_filter)
next
  assume a: "\<not> assertsEnabled b \<and> m_pimpl s = Some p \<and> m_hidDeviceInterface p \<noteq> 0
        \<and> ((\<exists>es. copyMatchingElements d = (kIOReturnSuccess, Array es))
           \<or> (fst (copyMatchingElements d) \<noteq> kIOReturnSuccess
               \<and> snd (copyMatchingElements d) \<noteq> Indeterminate))"
  then consider
    (scanned) es where "copyMatchingElements d = (kIOReturnSuccess, Array es)"
  | (failed) "fst (copyMatchingElements d) \<noteq> kIOReturnSuccess"
             "snd (copyMatchingElements d) \<noteq> Indeterminate"
    by blast
  then show "\<exists>r s'. FindKeypressCookies b d s = Inr (r, s')"
  proof cases
    case scanned
    from a scan_release_total [of b es "driverCall (CopyMatchingElements (m_hidDeviceInterface p)) s"]
    obtain s2 where "forEach (scanElement b) es
        (driverCall (CopyMatchingElements (m_hidDeviceInterface p)) s) = Inr s2"
      by blast
    with a scanned show ?thesis
      by (simp add: FindKeypressCookies_scan [where p = p and es = es])
  next
    case failed
    with a show ?thesis
      by (cases "copyMatchingElements d")
         (auto simp: FindKeypressCookies_def Let_def split: CFArrayRef.splits)
  qed
next
  fix r s'
  assume "snd (copyMatchingElements d) = Indeterminate"
  then show "FindKeypressCookies b d s \<noteq> Inr (r, s')"
    by (cases "copyMatchingElements d")
       (auto simp: FindKeypressCookies_def Let_def
             split: option.splits if_splits sum.splits)
qed

theorem FindKeypressCookies_success_iff_more_than_40_witness:
  "FindKeypressCookies releaseBuild
       (sampleDriver [keyElement 104 4 kHIDPage_KeyboardOrKeypad] emptyQueue) scanningHelper
     = Inr (False, driverCall (CopyMatchingElements 2) keyABoundHelper)
   \<and> macCookieValue (m_keys keyABoundHelper ! 4) = 104
   \<and> resolvedNonIgnored (m_keys (driverCall (CopyMatchingElements 2) keyABoundHelper)) = 1
   \<and> FindKeypressCookies releaseBuild (failingElementsDriver NullArray) scanningHelper
     = Inr (False,
         scanningHelper\<lparr>driverCalls := driverCalls scanningHelper @ [CopyMatchingElements 2],
                         logged := [''copyMatchingElements failed. code: -536870212'']\<rparr>)
   \<and> resolvedNonIgnored (m_keys scanningHelper) = 0
   \<and> FindKeypressCookies releaseBuild (failingElementsDriver Indeterminate) scanningHelper
     = Inl IndeterminateRead"
proof -
  let ?d = "sampleDriver [keyElement 104 4 kHIDPage_KeyboardOrKeypad] emptyQueue"
  let ?s' = "driverCall (CopyMatchingElements 2) keyABoundHelper"
  have one: "resolvedNonIgnored (m_keys ?s') = 1"
    by (simp add: resolved_keyABound)
  have none: "resolvedNonIgnored (m_keys scanningHelper) = 0"
    by (simp add: scanningHelper_fields resolvedNonIgnored_keyTable)
  have failed: "FindKeypressCookies releaseBuild (failingElementsDriver NullArray) scanningHelper
     = Inr (40 < countLocated (m_keys scanningHelper) 0,
         scanningHelper\<lparr>driverCalls := driverCalls scanningHelper @ [CopyMatchingElements 2],
                         logged := [''copyMatchingElements failed. code: -536870212'']\<rparr>)"
    by (simp add: FindKeypressCookies_def failingElementsDriver_def scanningHelper_fields
          kIOReturnError_not_success kIOReturnSuccess_def formatInt_kIOReturnError
          LogErrorWhenFunctorIsntEmpty_def driverCall_def Let_def del: countLocated.simps)
  have lost: "FindKeypressCookies releaseBuild (failingElementsDriver Indeterminate) scanningHelper
     = Inl IndeterminateRead"
    by (simp add: FindKeypressCookies_def failingElementsDriver_def scanningHelper_fields
          kIOReturnError_not_success kIOReturnSuccess_def Let_def del: countLocated.simps)
  from FindKeypressCookies_success_iff_more_than_40 [of releaseBuild ?d scanningHelper]
    keyA_resolution one
  have first: "FindKeypressCookies releaseBuild ?d scanningHelper = Inr (False, ?s')
      \<and> macCookieValue (m_keys keyABoundHelper ! 4) = 104
      \<and> resolvedNonIgnored (m_keys ?s') = 1"
    by (simp add: keyABoundHelper_fields length_keyTable)
  from FindKeypressCookies_success_iff_more_than_40
         [of releaseBuild "failingElementsDriver NullArray" scanningHelper] failed none
  have second: "FindKeypressCookies releaseBuild (failingElementsDriver NullArray) scanningHelper
     = Inr (False,
         scanningHelper\<lparr>driverCalls := driverCalls scanningHelper @ [CopyMatchingElements 2],
                         logged := [''copyMatchingElements failed. code: -536870212'']\<rparr>)"
    by (simp add: scanningHelper_fields)
  from first second none lost show ?thesis by simp
qed

text \<open>
  C7: a keyboard-page descriptor whose usage code is at least the table size, or
  negative, leaves the helper as it is (no slot written, nothing logged), in every
  build; so a scan gives the same result with the descriptor as without it.
\<close>

theorem out_of_range_usage_ignored:
  assumes "readLong (e kIOHIDElementCookieKey) = Some c"
    and "readLong (e kIOHIDElementUsageKey) = Some u"
    and "readLong (e kIOHIDElementUsagePageKey) = Some kHIDPage_KeyboardOrKeypad"
    and "sint u \<ge> int (length (m_keys s)) \<or> sint u < 0"
  shows "scanElement b e s = Inr s
       \<and> forEach (scanElement b) (before @ e # after) s
           = forEach (scanElement b) (before @ after) s"
proof -
  have step: "scanElement b e t = Inr t" if "length (m_keys t) = length (m_keys s)" for t
    using assms that by (auto simp: scanElement_def Let_def)
  have "forEach (scanElement b) (e # after) t = forEach (scanElement b) after t"
    if "forEach (scanElement b) before s = Inr t" for t
    using step [of t] scan_frame [OF that] by simp
  then have "forEach (scanElement b) (before @ e # after) s
           = forEach (scanElement b) (before @ after) s"
    by (simp add: forEach_append split: sum.splits)
  with step [of s] show ?thesis by simp
qed

theorem out_of_range_usage_ignored_witness:
  "scanElement releaseBuild (keyElement 300 231 kHIDPage_KeyboardOrKeypad) scanningHelper
     = Inr scanningHelper
   \<and> forEach (scanElement releaseBuild)
       ([keyElement 104 4 kHIDPage_KeyboardOrKeypad]
          @ keyElement 300 231 kHIDPage_KeyboardOrKeypad
          # [keyElement 105 5 kHIDPage_KeyboardOrKeypad]) scanningHelper
     = forEach (scanElement releaseBuild)
       ([keyElement 104 4 kHIDPage_KeyboardOrKeypad]
          @ [keyElement 105 5 kHIDPage_KeyboardOrKeypad]) scanningHelper"
proof -
  have range: "sint (231 :: long) \<ge> int (length (m_keys scanningHelper)) \<or> sint (231 :: long) < 0"
    by (simp add: scanningHelper_fields length_keyTable)
  from out_of_range_usage_ignored
         [where e = "keyElement 300 231 kHIDPage_KeyboardOrKeypad" and b = releaseBuild
            and before = "[keyElement 104 4 kHIDPage_KeyboardOrKeypad]"
            and after = "[keyElement 105 5 kHIDPage_KeyboardOrKeypad]",
          OF keyElement_fields range]
  show ?thesis by simp
qed

text \<open>
  C5, as the code has it: a descriptor in which one of the three fields is absent, is
  not a number or does not convert is skipped, no slot is written and the scan goes on
  with the next descriptor. Nothing is reported when it is the cookie that fails; when
  the cookie is read and the usage code or the usage page fails, a message goes to the
  error logger (if one is installed).
\<close>

theorem malformed_descriptor_skipped:
  assumes "readLong (e kIOHIDElementCookieKey) = None
         \<or> readLong (e kIOHIDElementUsageKey) = None
         \<or> readLong (e kIOHIDElementUsagePageKey) = None"
  shows "\<exists>s'. scanElement b e s = Inr s'
           \<and> m_keys s' = m_keys s
           \<and> forEach (scanElement b) (e # es) s = forEach (scanElement b) es s'
           \<and> logged s' = logged s @
               (if readLong (e kIOHIDElementCookieKey) = None \<or> \<not> m_errorLoggerFunctor s then []
                else if readLong (e kIOHIDElementUsageKey) = None
                     then [''A cookie without a usage id?'']
                     else [''A cookie without a usage page?''])"
  using assms
  by (auto simp: scanElement_def Let_def LogErrorWhenFunctorIsntEmpty_def split: option.splits)

theorem malformed_descriptor_skipped_witness:
  "\<exists>s'. scanElement releaseBuild cookieOnlyElement scanningHelper = Inr s'
        \<and> m_keys s' = m_keys scanningHelper
        \<and> forEach (scanElement releaseBuild)
             [cookieOnlyElement, keyElement 104 4 kHIDPage_KeyboardOrKeypad] scanningHelper
            = forEach (scanElement releaseBuild)
                [keyElement 104 4 kHIDPage_KeyboardOrKeypad] s'
        \<and> logged s' = [''A cookie without a usage id?'']"
proof -
  have missing: "readLong (cookieOnlyElement kIOHIDElementCookieKey) = None
         \<or> readLong (cookieOnlyElement kIOHIDElementUsageKey) = None
         \<or> readLong (cookieOnlyElement kIOHIDElementUsagePageKey) = None"
    by (simp add: cookieOnlyElement_fields)
  from malformed_descriptor_skipped [OF missing, of releaseBuild scanningHelper
          "[keyElement 104 4 kHIDPage_KeyboardOrKeypad]"]
  show ?thesis
    by (simp add: cookieOnlyElement_fields scanningHelper_fields)
qed

text \<open>
  C5 as stated fails: a descriptor that holds a cookie and no usage code is reported
  through the error logger.
\<close>

theorem descriptor_without_usage_is_reported:
  "FindKeypressCookies releaseBuild (sampleDriver [cookieOnlyElement] emptyQueue) scanningHelper
     = Inr (False,
         scanningHelper\<lparr>driverCalls := driverCalls scanningHelper @ [CopyMatchingElements 2],
                         logged := [''A cookie without a usage id?'']\<rparr>)
   \<and> logged scanningHelper = []"
proof -
  have "forEach (scanElement releaseBuild) [cookieOnlyElement]
          (driverCall (CopyMatchingElements 2) scanningHelper)
        = Inr (scanningHelper\<lparr>driverCalls := driverCalls scanningHelper @ [CopyMatchingElements 2],
                         logged := [''A cookie without a usage id?'']\<rparr>)"
    by (simp add: scanElement_def cookieOnlyElement_fields scanningHelper_fields
          LogErrorWhenFunctorIsntEmpty_def driverCall_def)
  then show ?thesis
    by (simp add: sample_resolution scanningHelper_fields resolvedNonIgnored_keyTable)
qed




subsection \<open>Initialization and release\<close>

lemma kept_refl [simp]: "kept s s"
  by (simp add: kept_def)


lemma kept_LogError [simp]: "kept s (LogErrorWhenFunctorIsntEmpty m s)"
  by (simp add: kept_def)










lemma addOneElement_calls:
  "addOneElement b d k (ok, s) = Inr (ok', s') \<Longrightarrow> kept s s'"
  by (auto simp: addOneElement_def Let_def kept_def split: if_splits option.splits)


lemma LogInitializationError_frame [simp]:
  "m_pimpl (LogInitializationError m s) = m_pimpl s"
  "driverCalls (LogInitializationError m s) = driverCalls s"
  "m_keys (LogInitializationError m s) = m_keys s"
  by (simp_all add: LogInitializationError_def Let_def)

lemma reset_pimpl_None [simp]: "m_pimpl (reset_pimpl s) = None"
  by (simp add: reset_pimpl_def split: option.splits)

lemma Initialize_after_failure:
  "basicInitialization b d s = Inr (False, s1) \<Longrightarrow>
     Initialize b d s =
       Inr (reset_pimpl (LogInitializationError ''Failed basic keyboard initialization.'' s1))"
  by (simp add: Initialize_def)





text \<open>
  Basic initialization ends in failure exactly when one of the five stages, reached
  after the stages before it succeeded, returns false.
\<close>

lemma basicInitialization_fails_iff:
  "basicInitialization b d s = Inr (False, s') \<longleftrightarrow>
     FindKeyboard d s = Inr (False, s')
   \<or> (\<exists>s1. FindKeyboard d s = Inr (True, s1)
          \<and> (CreatePluginInterface d s1 = Inr (False, s')
             \<or> (\<exists>s2. CreatePluginInterface d s1 = Inr (True, s2)
                    \<and> (CreateDeviceInterface d s2 = Inr (False, s')
                       \<or> (\<exists>s3. CreateDeviceInterface d s2 = Inr (True, s3)
                              \<and> (PopulateVectorOfKeyInfo b s3 = Inr (False, s')
                                 \<or> (\<exists>s4. PopulateVectorOfKeyInfo b s3 = Inr (True, s4)
                                        \<and> FindKeypressCookies b d s4 = Inr (False, s'))))))))"
  by (auto simp: basicInitialization_def andAlso_def split: sum.splits if_splits)

text \<open>
  C3: when the five stages of basic initialization (\<open>FindKeyboard\<close>,
  \<open>CreatePluginInterface\<close>, \<open>CreateDeviceInterface\<close>, \<open>PopulateVectorOfKeyInfo\<close>,
  \<open>FindKeypressCookies\<close>, joined by \<open>&&\<close>) end in failure, the constructor returns a
  helper on which \<open>CountOfCurrentlyDepressedKeys\<close> returns a negative value and leaves
  the helper, and so the list of driver calls, as it was, whatever the driver.
\<close>

theorem failed_initialization_count_is_negative:
  assumes "basicInitialization b d (newHelper enableQueue logger) = Inr (False, s1)"
  shows "\<exists>s. HelperForKeyboardReaderIOKit b d enableQueue logger = Inr s
           \<and> (\<exists>n s'. CountOfCurrentlyDepressedKeys b d' s = Inr (n, s')
                  \<and> n < 0 \<and> driverCalls s' = driverCalls s \<and> s' = s)"
  using Initialize_after_failure [OF assms]
  by (simp add: HelperForKeyboardReaderIOKit_def CountOfCurrentlyDepressedKeys_def)

lemma noKeyboardDriver_basic:
  "basicInitialization releaseBuild noKeyboardDriver (newHelper True True)
     = Inr (False, (newHelper True True)
              \<lparr>driverCalls := [IOServiceMatching, IOServiceGetMatchingService]\<rparr>)"
  by (simp add: basicInitialization_def andAlso_def FindKeyboard_def noKeyboardDriver_def
        sampleDriver_def newHelper_def PrivateImpl_ctor_def driverCall_def Let_def)

lemma noKeyboardDriver_run:
  "HelperForKeyboardReaderIOKit releaseBuild noKeyboardDriver True True = Inr noKeyboardHelper"
  unfolding HelperForKeyboardReaderIOKit_def
  by (subst Initialize_after_failure [OF noKeyboardDriver_basic])
     (simp add: LogInitializationError_def LogErrorWhenFunctorIsntEmpty_def reset_pimpl_def
        PrivateImpl_dtor_def noKeyboardHelper_def newHelper_def PrivateImpl_ctor_def)

theorem failed_initialization_count_is_negative_witness:
  "basicInitialization releaseBuild noKeyboardDriver (newHelper True True)
     = Inr (False, (newHelper True True)
              \<lparr>driverCalls := [IOServiceMatching, IOServiceGetMatchingService]\<rparr>)
   \<and> HelperForKeyboardReaderIOKit releaseBuild noKeyboardDriver True True = Inr noKeyboardHelper
   \<and> CountOfCurrentlyDepressedKeys releaseBuild (sampleDriver fullKeyboardElements emptyQueue)
         noKeyboardHelper = Inr (- 1, noKeyboardHelper)
   \<and> driverCalls noKeyboardHelper = [IOServiceMatching, IOServiceGetMatchingService]"
proof -
  from failed_initialization_count_is_negative [OF noKeyboardDriver_basic,
         of "sampleDriver fullKeyboardElements emptyQueue"]
  obtain n where "CountOfCurrentlyDepressedKeys releaseBuild
         (sampleDriver fullKeyboardElements emptyQueue) noKeyboardHelper = Inr (n, noKeyboardHelper)"
    and "n < 0"
    by (auto simp: noKeyboardDriver_run)
  moreover have "CountOfCurrentlyDepressedKeys releaseBuild
         (sampleDriver fullKeyboardElements emptyQueue) noKeyboardHelper = Inr (- 1, noKeyboardHelper)"
    by (simp add: CountOfCurrentlyDepressedKeys_def noKeyboardHelper_def)
  ultimately show ?thesis
    using noKeyboardDriver_basic noKeyboardDriver_run by (simp add: noKeyboardHelper_def)
qed









lemma addOneElement_frame:
  "addOneElement b d k (ok, s) = Inr (ok', s') \<Longrightarrow>
     m_pimpl s' = m_pimpl s \<and> m_keys s' = m_keys s
   \<and> filter isRelease (driverCalls s') = filter isRelease (driverCalls s)"
  by (auto simp: addOneElement_def Let_def split: if_splits option.splits)

lemma addElements_frame:
  assumes "forEach (addOneElement b d) ks (ok, s) = Inr (ok', s')"
  shows "m_pimpl s' = m_pimpl s \<and> m_keys s' = m_keys s
       \<and> filter isRelease (driverCalls s') = filter isRelease (driverCalls s)"
proof -
  have "m_pimpl (snd (ok', s')) = m_pimpl s \<and> m_keys (snd (ok', s')) = m_keys s
       \<and> filter isRelease (driverCalls (snd (ok', s'))) = filter isRelease (driverCalls s)"
    by (rule forEach_invariant [where body = "addOneElement b d"
          and P = "\<lambda>a. m_pimpl (snd a) = m_pimpl s \<and> m_keys (snd a) = m_keys s
       \<and> filter isRelease (driverCalls (snd a)) = filter isRelease (driverCalls s)",
          OF _ assms])
       (use addOneElement_frame in fastforce)+
  then show ?thesis by simp
qed




subsection \<open>A session on the sample driver\<close>



lemma sample_negotiation:
  "andAlso (andAlso (andAlso
       (FindKeyboard (sampleDriver es q) (newHelper True True))
       (CreatePluginInterface (sampleDriver es q)))
       (CreateDeviceInterface (sampleDriver es q)))
       (PopulateVectorOfKeyInfo releaseBuild)
     = Inr (True, scanningHelper)"
  by (simp add: andAlso_def FindKeyboard_def CreatePluginInterface_def GetKeyboardProperties_def
      keyboardPropertyKeys_def StoreOneProperty_def CreateDeviceInterface_def
      sampleDriver_def newHelper_def PrivateImpl_ctor_def
      driverCall_def Populate_fresh scanningHelper_def
      kIOReturnSuccess_def S_OK_def Let_def)

lemma andAlso_Inr_True: "andAlso (Inr (True, s)) r = r s"
  by (simp add: andAlso_def)

lemma CreateQueue_succeeds:
  assumes "m_pimpl s = Some p" and "m_hidDeviceInterface p \<noteq> 0" and "allocQueue d \<noteq> 0"
    and "queueCreate d = kIOReturnSuccess" and "queueStart d = kIOReturnSuccess"
  shows "\<exists>s'. CreateQueue d s = Inr (True, s')
           \<and> m_pimpl s' = Some (p\<lparr>m_hidQueue := allocQueue d\<rparr>) \<and> m_keys s' = m_keys s"
  using assms by (simp add: CreateQueue_def Let_def)

lemma addElements_returns:
  assumes "\<not> assertsEnabled b" and "m_pimpl s = Some p" and "m_hidQueue p \<noteq> 0"
  shows "\<exists>ok' s'. forEach (addOneElement b d) ks (ok, s) = Inr (ok', s') \<and> m_pimpl s' = Some p"
  using assms(2)
proof (induction ks arbitrary: ok s)
  case Nil
  then show ?case by simp
next
  case (Cons k ks)
  have "\<exists>ok1 s1. addOneElement b d k (ok, s) = Inr (ok1, s1) \<and> m_pimpl s1 = Some p"
    using Cons.prems assms(1,3) by (auto simp: addOneElement_def Let_def)
  then obtain ok1 s1 where step: "addOneElement b d k (ok, s) = Inr (ok1, s1)"
    and p1: "m_pimpl s1 = Some p"
    by blast
  from Cons.IH [OF p1, of ok1] step show ?case by simp
qed

text \<open>
  When the scan of the descriptors of a sample driver resolves more than 40 keys, the
  construction of a helper on it, queue and logger asked for, succeeds; the helper holds
  the four handles and the table the scan left.
\<close>

lemma sample_session:
  assumes scan: "forEach (scanElement releaseBuild) es
                   (driverCall (CopyMatchingElements 2) scanningHelper) = Inr s2"
    and many: "40 < resolvedNonIgnored (m_keys s2)"
  shows "FindKeypressCookies releaseBuild (sampleDriver es q) scanningHelper = Inr (True, s2)
       \<and> (\<exists>t. HelperForKeyboardReaderIOKit releaseBuild (sampleDriver es q) True True = Inr t
              \<and> m_pimpl t = m_pimpl queuedHelper \<and> m_keys t = m_keys s2)"
proof -
  let ?d = "sampleDriver es q"
  have resolved: "FindKeypressCookies releaseBuild ?d scanningHelper = Inr (True, s2)"
    using scan many by (simp add: sample_resolution)
  have basic: "basicInitialization releaseBuild ?d (newHelper True True) = Inr (True, s2)"
    using resolved
    by (simp add: basicInitialization_def sample_negotiation andAlso_Inr_True)
  have p2: "m_pimpl s2 = Some \<lparr>m_hidDevice = 0x1503, m_hidDeviceInterface = 2,
                       m_plugInInterface = 1, m_hidQueue = 0\<rparr>"
    using scan_frame [OF scan] by (simp add: scanningHelper_fields)
  have q2: "m_queueEnabled s2"
    using scan_queueEnabled [OF scan] by (simp add: scanningHelper_def)
  from CreateQueue_succeeds [OF p2, of ?d] obtain s3 where
    queue: "CreateQueue ?d s2 = Inr (True, s3)"
    and p3: "m_pimpl s3 = Some \<lparr>m_hidDevice = 0x1503, m_hidDeviceInterface = 2,
                       m_plugInInterface = 1, m_hidQueue = 3\<rparr>"
    and k3: "m_keys s3 = m_keys s2"
    by (auto simp: sampleDriver_fields)
  from addElements_returns [of releaseBuild s3 _ ?d "m_keys s3" True, OF _ p3] obtain ok4 s4 where
    add: "AddElementsToQueue releaseBuild ?d s3 = Inr (ok4, s4)"
    and p4: "m_pimpl s4 = Some \<lparr>m_hidDevice = 0x1503, m_hidDeviceInterface = 2,
                       m_plugInInterface = 1, m_hidQueue = 3\<rparr>"
    by (auto simp: AddElementsToQueue_def)
  have k4: "m_keys s4 = m_keys s2"
    using addElements_frame [OF add [unfolded AddElementsToQueue_def]] k3 by simp
  let ?t = "if ok4 then s4 else LogInitializationError
                              ''Failed basic keyboard input queue initialization.'' s4"
  have "HelperForKeyboardReaderIOKit releaseBuild ?d True True = Inr ?t"
    by (simp add: HelperForKeyboardReaderIOKit_def Initialize_def basic q2 queue add
          andAlso_Inr_True)
  moreover have "m_pimpl ?t = m_pimpl queuedHelper"
    using p4 by (simp add: queuedHelper_def)
  moreover have "m_keys ?t = m_keys s2"
    using k4 by simp
  ultimately show ?thesis using resolved by blast
qed

lemma fullKeyboard_run:
  "\<exists>s2 t. FindKeypressCookies releaseBuild (sampleDriver fullKeyboardElements emptyQueue)
              scanningHelper = Inr (True, s2)
         \<and> macCookieValue (m_keys s2 ! 0) = 0
         \<and> fullKeyboardSession = Inr t
         \<and> m_pimpl t = m_pimpl queuedHelper \<and> m_keys t = m_keys s2"
proof -
  from fullKeyboard_scan obtain s2 where
    scan: "forEach (scanElement releaseBuild) fullKeyboardElements
            (driverCall (CopyMatchingElements 2) scanningHelper) = Inr s2"
    and count: "resolvedNonIgnored (m_keys s2) = 53"
    and slot: "macCookieValue (m_keys s2 ! 0) = 0"
    by blast
  from count have "40 < resolvedNonIgnored (m_keys s2)" by simp
  from sample_session [OF scan this, of emptyQueue] slot show ?thesis
    unfolding fullKeyboardSession_def by blast
qed



subsection \<open>Draining the queue\<close>

lemma drainQueue_first_non_success:
  assumes "\<forall>j<n. fst (answers (i + j)) = kIOReturnSuccess"
    and "fst (answers (i + n)) \<noteq> kIOReturnSuccess"
  shows "drainQueue answers q i s =
           Some (fst (answers (i + n)),
                 s\<lparr>driverCalls := driverCalls s @ replicate (Suc n) (QueueGetNextEvent q)\<rparr>)"
  using assms
proof (induction n arbitrary: i s)
  case 0
  then show ?case
    by (subst drainQueue.simps) (auto simp: driverCall_def Let_def)
next
  case (Suc n)
  from Suc.prems(1) have here: "fst (answers i) = kIOReturnSuccess"
    by (metis add.right_neutral zero_less_Suc)
  have later: "\<forall>j<n. fst (answers (Suc i + j)) = kIOReturnSuccess"
    using Suc.prems(1) by (metis Suc_less_eq add_Suc_shift)
  have stop: "fst (answers (Suc i + n)) \<noteq> kIOReturnSuccess"
    using Suc.prems(2) by simp
  have "drainQueue answers q i s = drainQueue answers q (Suc i) (driverCall (QueueGetNextEvent q) s)"
    by (subst drainQueue.simps) (simp add: here Let_def)
  also have "\<dots> = Some (fst (answers (Suc i + n)),
      (driverCall (QueueGetNextEvent q) s)\<lparr>driverCalls :=
          driverCalls (driverCall (QueueGetNextEvent q) s) @ replicate (Suc n) (QueueGetNextEvent q)\<rparr>)"
    by (rule Suc.IH [OF later stop])
  also have "\<dots> = Some (fst (answers (i + Suc n)),
                 s\<lparr>driverCalls := driverCalls s @ replicate (Suc (Suc n)) (QueueGetNextEvent q)\<rparr>)"
    by (simp add: driverCall_def replicate_append_same)
  finally show ?case .
qed

text \<open>
  C8: on a helper that holds a queue, when the first answer of \<open>getNextEvent\<close> that is
  not \<open>kIOReturnSuccess\<close> is the answer to call number \<open>n\<close>, the drain returns after
  exactly \<open>n + 1\<close> calls of \<open>getNextEvent\<close>, without an assertion failure; it logs
  nothing when that answer is \<open>kIOReturnUnderrun\<close>, and otherwise hands
  \<open>getNextEvent failed. code: ...\<close> to the error logger (if one is installed).
\<close>

theorem drain_ends_at_first_non_success:
  assumes "m_pimpl s = Some p" and "m_hidQueue p \<noteq> 0"
    and "\<forall>i<n. fst (getNextEvent d i) = kIOReturnSuccess"
    and "fst (getNextEvent d n) \<noteq> kIOReturnSuccess"
  shows "\<exists>s'. ReadFromQueue_Experimental b d s = Some (Inr s')
           \<and> driverCalls s' =
               driverCalls s @ replicate (Suc n) (QueueGetNextEvent (m_hidQueue p))
           \<and> logged s' = logged s @
               (if fst (getNextEvent d n) = kIOReturnUnderrun \<or> \<not> m_errorLoggerFunctor s then []
                else [''getNextEvent failed. code: '' @ formatInt (sint (fst (getNextEvent d n)))])"
proof -
  have "drainQueue (getNextEvent d) (m_hidQueue p) 0 s =
          Some (fst (getNextEvent d n),
                s\<lparr>driverCalls := driverCalls s @ replicate (Suc n) (QueueGetNextEvent (m_hidQueue p))\<rparr>)"
    using drainQueue_first_non_success [of n "getNextEvent d" 0 "m_hidQueue p" s] assms(3,4)
    by simp
  with assms(1,2,4) show ?thesis
    by (auto simp: ReadFromQueue_Experimental_def LogErrorWhenFunctorIsntEmpty_def)
qed

theorem drain_ends_at_first_non_success_witness:
  "\<exists>s'. ReadFromQueue_Experimental releaseBuild (sampleDriver [] failingQueue) queuedHelper
            = Some (Inr s')
        \<and> driverCalls s' = [QueueGetNextEvent 3, QueueGetNextEvent 3, QueueGetNextEvent 3]
        \<and> logged s' = [''getNextEvent failed. code: -536870212'']"
proof -
  have h1: "m_pimpl queuedHelper = Some \<lparr>m_hidDevice = 0x1503, m_hidDeviceInterface = 2,
                       m_plugInInterface = 1, m_hidQueue = 3\<rparr>"
    by (simp add: queuedHelper_def)
  have h2: "m_hidQueue \<lparr>m_hidDevice = 0x1503, m_hidDeviceInterface = 2,
                       m_plugInInterface = 1, m_hidQueue = 3\<rparr> \<noteq> 0"
    by simp
  have h3: "\<forall>i<2. fst (getNextEvent (sampleDriver [] failingQueue) i) = kIOReturnSuccess"
    by (simp add: sampleDriver_def failingQueue_def)
  have h4: "fst (getNextEvent (sampleDriver [] failingQueue) 2) \<noteq> kIOReturnSuccess"
    by (simp add: sampleDriver_def failingQueue_def kIOReturnError_def kIOReturnSuccess_def)
  have g: "fst (getNextEvent (sampleDriver [] failingQueue) 2) = kIOReturnError"
    by (simp add: sampleDriver_def failingQueue_def)
  have u: "kIOReturnError \<noteq> kIOReturnUnderrun"
    by (simp add: kIOReturnError_def kIOReturnUnderrun_def)
  have q: "driverCalls queuedHelper = []" "logged queuedHelper = []"
    "m_errorLoggerFunctor queuedHelper"
    by (simp_all add: queuedHelper_def)
  from drain_ends_at_first_non_success [OF h1 h2 h3 h4, of releaseBuild]
  show ?thesis
    by (simp add: g u q formatInt_kIOReturnError numeral_3_eq_3)
qed

subsection \<open>Polling and the placeholder slot\<close>




lemma debugCheckKey_frame:
  "debugCheckKey d key s = Inr s' \<Longrightarrow>
     m_keys s' = m_keys s \<and> m_pimpl s' = m_pimpl s
   \<and> (\<exists>calls. driverCalls s' = driverCalls s @ calls)"
  by (auto simp: debugCheckKey_def Let_def split: if_splits option.splits prod.splits)

lemma DebugCheckErrorKeys_frame:
  assumes "DebugCheckErrorKeys b d s = Inr s'"
  shows "m_keys s' = m_keys s \<and> m_pimpl s' = m_pimpl s
       \<and> (\<exists>calls. driverCalls s' = driverCalls s @ calls)"
proof (cases "debugChecks b")
  case True
  with assms have run: "forEach (debugCheckKey d)
          [(kHIDUsage_KeyboardErrorRollOver, ''kHIDUsage_KeyboardErrorRollOver''),
           (kHIDUsage_KeyboardPOSTFail, ''kHIDUsage_KeyboardPOSTFail''),
           (kHIDUsage_KeyboardErrorUndefined, ''kHIDUsage_KeyboardErrorUndefined''),
           (kHIDUsage_KeyboardPower, ''kHIDUsage_KeyboardPower'')] s = Inr s'"
    by (simp add: DebugCheckErrorKeys_def)
  show ?thesis
    by (rule forEach_invariant [where body = "debugCheckKey d"
          and P = "\<lambda>t. m_keys t = m_keys s \<and> m_pimpl t = m_pimpl s
                     \<and> (\<exists>calls. driverCalls t = driverCalls s @ calls)", OF _ run])
       (use debugCheckKey_frame in fastforce)+
next
  case False
  with assms show ?thesis by (simp add: DebugCheckErrorKeys_def)
qed



text \<open>An entry without a handle at the head of the table is passed over by both loops.\<close>

lemma unbound_head_is_passed_over:
  assumes "m_keys t = k # ks" and "macCookieValue k = 0"
  shows "AddElementsToQueue b d t = forEach (addOneElement b d) (tl (m_keys t)) (True, t)"
    and "CountOfCurrentlyDepressedKeys b d t =
           (case m_pimpl t of
              None \<Rightarrow> Inr (- 1, t)
            | Some p \<Rightarrow>
                (case DebugCheckErrorKeys b d t of
                   Inl c \<Rightarrow> Inl c
                 | Inr t1 \<Rightarrow> forEach (pollOneKey b d) (tl (m_keys t1)) (0, t1)))"
proof -
  show "AddElementsToQueue b d t = forEach (addOneElement b d) (tl (m_keys t)) (True, t)"
    using assms by (simp add: AddElementsToQueue_def addOneElement_def)
  have "forEach (pollOneKey b d) (m_keys t1) (0, t1) = forEach (pollOneKey b d) (tl (m_keys t1)) (0, t1)"
    if "DebugCheckErrorKeys b d t = Inr t1" for t1
    using DebugCheckErrorKeys_frame [OF that] assms by (simp add: pollOneKey_def)
  then show "CountOfCurrentlyDepressedKeys b d t =
           (case m_pimpl t of
              None \<Rightarrow> Inr (- 1, t)
            | Some p \<Rightarrow>
                (case DebugCheckErrorKeys b d t of
                   Inl c \<Rightarrow> Inl c
                 | Inr t1 \<Rightarrow> forEach (pollOneKey b d) (tl (m_keys t1)) (0, t1)))"
    by (simp add: CountOfCurrentlyDepressedKeys_def split: option.splits sum.splits)
qed

text \<open>
  C9, as the code has it: in every populated table the entry at index 0 is the
  placeholder, with usage code 0, no handle and the ignore flag false (the default of
  the parameter). The flag stays false through element resolution. As long as element
  resolution leaves the entry without a handle, it is left out of the success count
  (the verdict is that of the rest of the table), of the queueing loop and of the
  polling loop, each of which then does what it does on the rest of the table.
\<close>

theorem placeholder_is_unbound_and_not_ignored:
  assumes "PopulateVectorOfKeyInfo b s0 = Inr (True, s1)"
  shows "name (m_keys s1 ! 0) = ''BOGUS PLACEHOLDER AT INDEX ZERO''
       \<and> usbOfficialUsageID (m_keys s1 ! 0) = 0
       \<and> macCookieValue (m_keys s1 ! 0) = 0
       \<and> mustBeIgnoredByOurApplication (m_keys s1 ! 0) = False
       \<and> (\<forall>d r s2 t b' d'.
            FindKeypressCookies b d s1 = Inr (r, s2)
            \<and> macCookieValue (m_keys s2 ! 0) = 0 \<and> m_keys t = m_keys s2 \<longrightarrow>
              mustBeIgnoredByOurApplication (m_keys s2 ! 0) = False
            \<and> m_keys s2 \<noteq> []
            \<and> r = (40 < resolvedNonIgnored (tl (m_keys s2)))
            \<and> AddElementsToQueue b' d' t
                = forEach (addOneElement b' d') (tl (m_keys t)) (True, t)
            \<and> CountOfCurrentlyDepressedKeys b' d' t =
                (case m_pimpl t of
                   None \<Rightarrow> Inr (- 1, t)
                 | Some p \<Rightarrow>
                     (case DebugCheckErrorKeys b' d' t of
                        Inl c \<Rightarrow> Inl c
                      | Inr t1 \<Rightarrow> forEach (pollOneKey b' d') (tl (m_keys t1)) (0, t1))))"
proof -
  from Populate_True [OF assms] have k1: "m_keys s1 = keyTable" by simp
  have fields: "name (m_keys s1 ! 0) = ''BOGUS PLACEHOLDER AT INDEX ZERO''
       \<and> usbOfficialUsageID (m_keys s1 ! 0) = 0
       \<and> macCookieValue (m_keys s1 ! 0) = 0
       \<and> mustBeIgnoredByOurApplication (m_keys s1 ! 0) = False"
    by (simp add: k1 keyTable_0 PerKeyData_ctor_def)
  have later: "mustBeIgnoredByOurApplication (m_keys s2 ! 0) = False
            \<and> m_keys s2 \<noteq> []
            \<and> r = (40 < resolvedNonIgnored (tl (m_keys s2)))
            \<and> AddElementsToQueue b' d' t
                = forEach (addOneElement b' d') (tl (m_keys t)) (True, t)
            \<and> CountOfCurrentlyDepressedKeys b' d' t =
                (case m_pimpl t of
                   None \<Rightarrow> Inr (- 1, t)
                 | Some p \<Rightarrow>
                     (case DebugCheckErrorKeys b' d' t of
                        Inl c \<Rightarrow> Inl c
                      | Inr t1 \<Rightarrow> forEach (pollOneKey b' d') (tl (m_keys t1)) (0, t1)))"
    if resolved: "FindKeypressCookies b d s1 = Inr (r, s2)"
      and unbound: "macCookieValue (m_keys s2 ! 0) = 0" and table: "m_keys t = m_keys s2"
    for d r s2 t b' d'
  proof -
    from FindKeypressCookies_frame [OF resolved, of 0] fields k1
    have flag: "mustBeIgnoredByOurApplication (m_keys s2 ! 0) = False"
      and len: "length (m_keys s2) = 165"
      by (simp_all add: length_keyTable)
    from len obtain k ks where cons: "m_keys s2 = k # ks" by (cases "m_keys s2") auto
    with unbound have k: "macCookieValue k = 0" by simp
    from FindKeypressCookies_Inr [OF resolved]
    have "r = (40 < countLocated (m_keys s2) 0)" by blast
    with cons k have verdict: "r = (40 < resolvedNonIgnored (tl (m_keys s2)))"
      by (simp add: countLocated_filter resolvedNonIgnored_Cons)
    from cons table have t: "m_keys t = k # ks" by simp
    from flag cons verdict unbound_head_is_passed_over [OF t k, of b' d']
    show ?thesis by simp
  qed
  from fields later show ?thesis by blast
qed

theorem placeholder_is_unbound_and_not_ignored_witness:
  "\<exists>s2 t. PopulateVectorOfKeyInfo releaseBuild (scanningHelper\<lparr>m_keys := []\<rparr>)
              = Inr (True, scanningHelper)
         \<and> FindKeypressCookies releaseBuild (sampleDriver fullKeyboardElements emptyQueue)
              scanningHelper = Inr (True, s2)
         \<and> macCookieValue (m_keys s2 ! 0) = 0
         \<and> HelperForKeyboardReaderIOKit releaseBuild
              (sampleDriver fullKeyboardElements emptyQueue) True True = Inr t
         \<and> m_keys t = m_keys s2
         \<and> mustBeIgnoredByOurApplication (m_keys s2 ! 0) = False
         \<and> 40 < resolvedNonIgnored (tl (m_keys s2))
         \<and> AddElementsToQueue releaseBuild (sampleDriver fullKeyboardElements emptyQueue) t
             = forEach (addOneElement releaseBuild (sampleDriver fullKeyboardElements emptyQueue))
                 (tl (m_keys t)) (True, t)
         \<and> CountOfCurrentlyDepressedKeys releaseBuild
               (sampleDriver fullKeyboardElements emptyQueue) t
             = forEach (pollOneKey releaseBuild (sampleDriver fullKeyboardElements emptyQueue))
                 (tl (m_keys t)) (0, t)"
proof -
  let ?d = "sampleDriver fullKeyboardElements emptyQueue"
  have populated: "PopulateVectorOfKeyInfo releaseBuild (scanningHelper\<lparr>m_keys := []\<rparr>)
                     = Inr (True, scanningHelper)"
    by (simp add: Populate_fresh scanningHelper_def)
  from fullKeyboard_run obtain s2 t where
    resolved: "FindKeypressCookies releaseBuild ?d scanningHelper = Inr (True, s2)"
    and unbound: "macCookieValue (m_keys s2 ! 0) = 0"
    and run: "HelperForKeyboardReaderIOKit releaseBuild ?d True True = Inr t"
    and live: "m_pimpl t = m_pimpl queuedHelper"
    and table: "m_keys t = m_keys s2"
    unfolding fullKeyboardSession_def by blast
  from placeholder_is_unbound_and_not_ignored [OF populated] resolved unbound table
  have "mustBeIgnoredByOurApplication (m_keys s2 ! 0) = False
      \<and> True = (40 < resolvedNonIgnored (tl (m_keys s2)))
      \<and> AddElementsToQueue releaseBuild ?d t
          = forEach (addOneElement releaseBuild ?d) (tl (m_keys t)) (True, t)
      \<and> CountOfCurrentlyDepressedKeys releaseBuild ?d t =
          (case m_pimpl t of
             None \<Rightarrow> Inr (- 1, t)
           | Some p \<Rightarrow>
               (case DebugCheckErrorKeys releaseBuild ?d t of
                  Inl c \<Rightarrow> Inl c
                | Inr t1 \<Rightarrow> forEach (pollOneKey releaseBuild ?d) (tl (m_keys t1)) (0, t1)))"
    by blast
  with live have "mustBeIgnoredByOurApplication (m_keys s2 ! 0) = False
      \<and> 40 < resolvedNonIgnored (tl (m_keys s2))
      \<and> AddElementsToQueue releaseBuild ?d t
          = forEach (addOneElement releaseBuild ?d) (tl (m_keys t)) (True, t)
      \<and> CountOfCurrentlyDepressedKeys releaseBuild ?d t
          = forEach (pollOneKey releaseBuild ?d) (tl (m_keys t)) (0, t)"
    by (simp add: queuedHelper_def DebugCheckErrorKeys_def)
  with populated resolved unbound run table show ?thesis by blast
qed

text \<open>C9 as stated fails: the entry at index 0 of a populated table is not marked ignored.\<close>

theorem placeholder_is_not_marked_ignored:
  "PopulateVectorOfKeyInfo releaseBuild (newHelper False True)
     = Inr (True, (newHelper False True)\<lparr>m_keys := keyTable\<rparr>)
   \<and> \<not> mustBeIgnoredByOurApplication (m_keys ((newHelper False True)\<lparr>m_keys := keyTable\<rparr>) ! 0)"
  by (simp add: Populate_fresh newHelper_def keyTable_0 PerKeyData_ctor_def)









end
